theory Spec2Isabelle
  imports Main "HOL-Library.Word"
begin

section \<open>ESP32 WiFi repeater with BLE control: data model\<close>

text \<open>
  The sketch \<^verbatim>\<open>Esp32.c++\<close> keeps its configuration in global variables, reacts to BLE
  writes (\<^verbatim>\<open>ConfigCallbacks::parseConfig\<close>) and supervises the station link from
  \<^verbatim>\<open>loop()\<close>. The globals become one record; every call into the Arduino, WiFi, BLE and
  ESP-IDF libraries that acts on the outside world is recorded, in program order, in the
  field \<open>trace\<close>. What the libraries answer is read from the field \<open>world\<close>.
\<close>

text \<open>The values of \<^verbatim>\<open>wl_status_t\<close> that \<^verbatim>\<open>WiFi.status()\<close> can return.\<close>

datatype wl_status_t =
    WL_NO_SHIELD | WL_IDLE_STATUS | WL_NO_SSID_AVAIL | WL_SCAN_COMPLETED
  | WL_CONNECTED | WL_CONNECT_FAILED | WL_CONNECTION_LOST | WL_DISCONNECTED

text \<open>What \<^verbatim>\<open>Serial.print\<close> is given: text, or a number.\<close>

datatype printable = Str string | Num int

text \<open>The values stored in the status document.\<close>

datatype json = JBool bool | JInt int | JStr string

type_synonym JsonObject = "(string \<times> json) list"

type_synonym IPAddress = "nat list"

datatype event =
    Serial_print_ev printable
  | Serial_println_ev printable
  | delay_ev "32 word"
  | WiFi_disconnect
  | WiFi_begin string string
  | WiFi_softAPConfig IPAddress IPAddress IPAddress
  | WiFi_softAP string string int int int
  | esp_wifi_set_ps "8 word"
  | esp_wifi_set_listen_interval "16 word"
  | BLE_setValue JsonObject
  | BLE_notify
  | BLE_advertising_start

text \<open>
  The answers of the libraries. \<open>WiFi_status_at w n\<close> is what the \<open>n\<close>-th call of
  \<^verbatim>\<open>WiFi.status()\<close> returns; the next fields are the readings of the radio and of the
  heap, already rendered as text where the sketch prints or serialises an address.
  \<open>JsonDocument_keeps w capacity members\<close> is what a \<^verbatim>\<open>DynamicJsonDocument\<close> of that
  capacity holds after these members were assigned to it in this order: what is lost when
  the pool of the document is full is decided by the JSON library, not by the sketch.
\<close>

record world =
  WiFi_status_at :: "nat \<Rightarrow> wl_status_t"
  WiFi_SSID :: string
  WiFi_localIP :: string
  WiFi_RSSI :: int
  WiFi_macAddress :: string
  WiFi_softAPIP :: string
  WiFi_softAPgetStationNum :: int
  ESP_getFreeHeap :: int
  JsonDocument_keeps :: "nat \<Rightarrow> JsonObject \<Rightarrow> JsonObject"

text \<open>
  The globals of the sketch (lines 19-45), the two \<^verbatim>\<open>static\<close> locals of \<^verbatim>\<open>loop()\<close>, the
  clock \<^verbatim>\<open>millis()\<close> (an \<^verbatim>\<open>unsigned long\<close>, 32 bits on the ESP32), the number of status
  queries made so far, and the trace. \<^verbatim>\<open>int\<close> variables only ever hold values read from
  the document and are compared, never computed with, so they are \<open>int\<close>;
  \<^verbatim>\<open>uint8_t\<close> and \<^verbatim>\<open>uint16_t\<close> are words.
\<close>

record state =
  primarySSID :: string
  primaryPassword :: string
  apSSID :: string
  apPassword :: string
  apChannel :: int
  maxClients :: int
  powerSavingEnabled :: bool
  powerSaveMode :: "8 word"
  listenInterval :: "16 word"
  isPrimaryConnected :: bool
  lastReconnectAttempt :: "32 word"
  deviceConnected :: bool
  oldDeviceConnected :: bool
  lastBLEStatusTime :: "32 word"
  lastStatusTime :: "32 word"
  world :: world
  status_calls :: nat
  millis :: "32 word"
  trace :: "event list"

text \<open>
  Modelled from the spec: the enumerators of \<^verbatim>\<open>wifi_ps_type_t\<close> are declared in the
  ESP-IDF header \<^verbatim>\<open>esp_wifi_types.h\<close>, not in the sketch. The spec names the three modes
  NONE, MIN, MAX and numbers them 0 to 2 (\<^verbatim>\<open>powerMode\<close>, int 0-2); the sketch stores them
  in a \<^verbatim>\<open>uint8_t\<close>.
\<close>

definition WIFI_PS_NONE :: "8 word" where "WIFI_PS_NONE = 0"
definition WIFI_PS_MIN_MODEM :: "8 word" where "WIFI_PS_MIN_MODEM = 1"
definition WIFI_PS_MAX_MODEM :: "8 word" where "WIFI_PS_MAX_MODEM = 2"

definition apIP :: IPAddress where "apIP = [192, 168, 4, 1]"
definition apNetmask :: IPAddress where "apNetmask = [255, 255, 255, 0]"

definition reconnectInterval :: "32 word" where "reconnectInterval = 30000"

text \<open>The initialisers of the globals (lines 19-45), in a given world, at time 0.\<close>

definition initial :: "world \<Rightarrow> state" where
  "initial w = \<lparr>
     primarySSID = ''Shivam5G'',
     primaryPassword = '''',
     apSSID = ''Shivam5G_Repeater'',
     apPassword = '''',
     apChannel = 7,
     maxClients = 8,
     powerSavingEnabled = True,
     powerSaveMode = WIFI_PS_MIN_MODEM,
     listenInterval = 3,
     isPrimaryConnected = False,
     lastReconnectAttempt = 0,
     deviceConnected = False,
     oldDeviceConnected = False,
     lastBLEStatusTime = 0,
     lastStatusTime = 0,
     world = w,
     status_calls = 0,
     millis = 0,
     trace = [] \<rparr>"

section \<open>Library calls\<close>

definition emit :: "event \<Rightarrow> state \<Rightarrow> state" where
  "emit e st = st\<lparr>trace := trace st @ [e]\<rparr>"

definition Serial_print :: "printable \<Rightarrow> state \<Rightarrow> state" where
  "Serial_print p st = emit (Serial_print_ev p) st"

definition Serial_println :: "printable \<Rightarrow> state \<Rightarrow> state" where
  "Serial_println p st = emit (Serial_println_ev p) st"

text \<open>\<^verbatim>\<open>delay(ms)\<close> lets the clock advance by \<open>ms\<close>; the clock wraps at 32 bits.\<close>

definition delay :: "32 word \<Rightarrow> state \<Rightarrow> state" where
  "delay ms st = emit (delay_ev ms) (st\<lparr>millis := millis st + ms\<rparr>)"

text \<open>\<^verbatim>\<open>WiFi.status()\<close>: the next answer of the world.\<close>

definition WiFi_status :: "state \<Rightarrow> wl_status_t \<times> state" where
  "WiFi_status st =
     (WiFi_status_at (world st) (status_calls st), st\<lparr>status_calls := Suc (status_calls st)\<rparr>)"

text \<open>
  The members assigned to a JSON object, in order: \<^verbatim>\<open>statusDoc[key] = value\<close> replaces the
  member where the key was assigned before and adds one otherwise. Which of them the
  document holds in the end is \<open>JsonDocument_keeps\<close>.
\<close>

fun doc_set :: "string \<Rightarrow> json \<Rightarrow> JsonObject \<Rightarrow> JsonObject" where
  "doc_set k v [] = [(k, v)]"
| "doc_set k v ((k', v') # kvs) =
     (if k' = k then (k, v) # kvs else (k', v') # doc_set k v kvs)"

section \<open>Status reporting\<close>

text \<open>\<^verbatim>\<open>printWiFiStatus()\<close>, lines 406-419.\<close>

definition printWiFiStatus :: "state \<Rightarrow> state" where
  "printWiFiStatus st0 =
     (let st = Serial_print (Str ''SSID: '') st0;
          st = Serial_println (Str (WiFi_SSID (world st))) st;
          st = Serial_print (Str ''IP Address: '') st;
          st = Serial_println (Str (WiFi_localIP (world st))) st;
          st = Serial_print (Str ''Signal Strength (RSSI): '') st;
          st = Serial_print (Num (WiFi_RSSI (world st))) st;
          st = Serial_println (Str '' dBm'') st;
          st = Serial_print (Str ''MAC Address: '') st
      in Serial_println (Str (WiFi_macAddress (world st))) st)"

text \<open>
  The assignments that \<^verbatim>\<open>updateBLEStatus()\<close> makes in lines 376-395, given the answer
  \<open>status\<close> of its status query. The \<^verbatim>\<open>switch\<close> of lines 386-390 has no default: for
  a mode that is none of the three enumerators nothing is assigned to \<^verbatim>\<open>powerMode\<close>.
\<close>

definition statusDoc_assigned :: "wl_status_t \<Rightarrow> state \<Rightarrow> JsonObject" where
  "statusDoc_assigned status st =
     (let doc = [];
          doc = doc_set ''primaryConnected'' (JBool (status = WL_CONNECTED)) doc;
          doc = doc_set ''primarySSID'' (JStr (primarySSID st)) doc;
          doc = doc_set ''primaryIP'' (JStr (WiFi_localIP (world st))) doc;
          doc = doc_set ''primaryRSSI'' (JInt (WiFi_RSSI (world st))) doc;
          doc = doc_set ''apSSID'' (JStr (apSSID st)) doc;
          doc = doc_set ''apIP'' (JStr (WiFi_softAPIP (world st))) doc;
          doc = doc_set ''connectedClients'' (JInt (WiFi_softAPgetStationNum (world st))) doc;
          doc = doc_set ''powerSaving'' (JBool (powerSavingEnabled st)) doc;
          doc = (if powerSaveMode st = WIFI_PS_NONE then doc_set ''powerMode'' (JInt 0) doc
                 else if powerSaveMode st = WIFI_PS_MIN_MODEM then doc_set ''powerMode'' (JInt 1) doc
                 else if powerSaveMode st = WIFI_PS_MAX_MODEM then doc_set ''powerMode'' (JInt 2) doc
                 else doc);
          doc = doc_set ''listenInterval'' (JInt (uint (listenInterval st))) doc;
          doc = doc_set ''freeHeap'' (JInt (ESP_getFreeHeap (world st))) doc
      in doc_set ''uptime'' (JInt (uint (millis st div 1000))) doc)"

text \<open>
  \<^verbatim>\<open>DynamicJsonDocument statusDoc(1024)\<close>, line 373, after lines 376-395: what a document
  of 1024 bytes holds of these assignments.
\<close>

definition statusDoc :: "wl_status_t \<Rightarrow> state \<Rightarrow> JsonObject" where
  "statusDoc status st = JsonDocument_keeps (world st) 1024 (statusDoc_assigned status st)"

text \<open>
  \<^verbatim>\<open>updateBLEStatus()\<close>, lines 370-404: nothing without a BLE peer; otherwise the
  document is serialised, stored in the status characteristic and notified. The event
  carries the document itself; its serialisation is the JSON library's.
\<close>

definition updateBLEStatus :: "state \<Rightarrow> state" where
  "updateBLEStatus st0 =
     (if \<not> deviceConnected st0 then st0
      else
        let (status, st) = WiFi_status st0;
            st = emit (BLE_setValue (statusDoc status st)) st
        in emit BLE_notify st)"

text \<open>\<^verbatim>\<open>printStatus()\<close>, lines 421-472.\<close>

definition printStatus :: "state \<Rightarrow> state" where
  "printStatus st0 =
     (let st = Serial_println (Str (CHR 0x0A # ''--- Status Update ---'')) st0;
          st = Serial_print (Str ''Primary WiFi connection: '') st;
          (status, st) = WiFi_status st;
          st = (if status = WL_CONNECTED then
                  (let st = Serial_println (Str ''Connected'') st;
                       st = Serial_print (Str ''IP: '') st;
                       st = Serial_print (Str (WiFi_localIP (world st))) st;
                       st = Serial_print (Str '', RSSI: '') st;
                       st = Serial_print (Num (WiFi_RSSI (world st))) st
                   in Serial_println (Str '' dBm'') st)
                else Serial_println (Str ''Disconnected'') st);
          st = Serial_print (Str ''Access Point: '') st;
          st = Serial_print (Str (apSSID st)) st;
          st = Serial_print (Str '', Connected clients: '') st;
          st = Serial_println (Num (WiFi_softAPgetStationNum (world st))) st;
          st = Serial_print (Str ''Power saving: '') st;
          st = Serial_println (Str (if powerSavingEnabled st then ''Enabled'' else ''Disabled'')) st;
          st = Serial_print (Str ''Power save mode: '') st;
          st = (if powerSaveMode st = WIFI_PS_NONE then Serial_println (Str ''None'') st
                else if powerSaveMode st = WIFI_PS_MIN_MODEM then Serial_println (Str ''Minimum'') st
                else if powerSaveMode st = WIFI_PS_MAX_MODEM then Serial_println (Str ''Maximum'') st
                else st);
          st = Serial_print (Str ''BLE connection: '') st;
          st = Serial_println (Str (if deviceConnected st then ''Connected'' else ''Disconnected'')) st;
          st = Serial_print (Str ''Free heap: '') st;
          st = Serial_println (Num (ESP_getFreeHeap (world st))) st;
          st = Serial_print (Str ''Uptime: '') st;
          uptime = millis st div 1000;
          st = Serial_print (Num (uint (uptime div 3600))) st;
          st = Serial_print (Str ''h '') st;
          st = Serial_print (Num (uint ((uptime mod 3600) div 60))) st;
          st = Serial_print (Str ''m '') st;
          st = Serial_print (Num (uint (uptime mod 60))) st;
          st = Serial_println (Str ''s'') st
      in Serial_println (Str ''--------------------'') st)"

section \<open>Station connection and settings\<close>

text \<open>
  The \<^verbatim>\<open>while\<close> loop of lines 314-319. The status is queried before the counter is
  compared, as \<^verbatim>\<open>&&\<close> evaluates its left operand first.
\<close>

function wait_for_connection :: "nat \<Rightarrow> state \<Rightarrow> state" where
  "wait_for_connection connectionAttempts st0 =
     (let (status, st) = WiFi_status st0 in
      if status \<noteq> WL_CONNECTED \<and> connectionAttempts < 20
      then wait_for_connection (connectionAttempts + 1) (Serial_print (Str ''.'') (delay 1000 st))
      else st)"
  by pat_completeness auto
termination
  by (relation "measure (\<lambda>(connectionAttempts, st). 20 - connectionAttempts)") auto

declare wait_for_connection.simps [simp del]

text \<open>\<^verbatim>\<open>connectToPrimaryWiFi()\<close>, lines 302-332.\<close>

definition connectToPrimaryWiFi :: "state \<Rightarrow> state" where
  "connectToPrimaryWiFi st0 =
     (let st = Serial_print (Str ''Connecting to primary WiFi network '') st0;
          st = Serial_println (Str (primarySSID st)) st;
          st = emit WiFi_disconnect st;
          st = delay 100 st;
          st = emit (WiFi_begin (primarySSID st) (primaryPassword st)) st;
          st = wait_for_connection 0 st;
          (status, st) = WiFi_status st;
          st = (if status = WL_CONNECTED then
                  printWiFiStatus
                    (Serial_println (Str (CHR 0x0A # ''Connected to primary WiFi!''))
                      (st\<lparr>isPrimaryConnected := True\<rparr>))
                else
                  Serial_println
                    (Str (CHR 0x0A # ''Failed to connect to primary WiFi. Will retry later.''))
                    (st\<lparr>isPrimaryConnected := False\<rparr>))
      in st\<lparr>lastReconnectAttempt := millis st\<rparr>)"

text \<open>
  \<^verbatim>\<open>applyPowerSavingSettings()\<close>, lines 351-368. Reading the station configuration,
  setting its listen interval and writing it back is one event.
\<close>

definition applyPowerSavingSettings :: "state \<Rightarrow> state" where
  "applyPowerSavingSettings st0 =
     (if powerSavingEnabled st0 then
        (let st = emit (esp_wifi_set_ps (powerSaveMode st0)) st0;
             st = emit (esp_wifi_set_listen_interval (listenInterval st)) st
         in Serial_println (Str ''Power saving mode applied'') st)
      else
        (let st = emit (esp_wifi_set_ps WIFI_PS_NONE) st0
         in Serial_println (Str ''Power saving disabled'') st))"

text \<open>\<^verbatim>\<open>applySettings(reconnectWifi)\<close>, lines 334-349.\<close>

definition applySettings :: "bool \<Rightarrow> state \<Rightarrow> state" where
  "applySettings reconnectWifi st0 =
     (let st = applyPowerSavingSettings st0;
          st = emit (WiFi_softAPConfig apIP apIP apNetmask) st;
          st = emit (WiFi_softAP (apSSID st) (apPassword st) (apChannel st) 0 (maxClients st)) st;
          st = (if reconnectWifi then connectToPrimaryWiFi st else st)
      in updateBLEStatus st)"

section \<open>The configuration reconciler\<close>

text \<open>
  The parsed document, as \<^verbatim>\<open>parseConfig\<close> reads it: a field is \<open>None\<close> where
  \<^verbatim>\<open>doc.containsKey(key)\<close> is false, and otherwise holds what
  \<^verbatim>\<open>doc[key].as<T>()\<close> returns, for the one type \<^verbatim>\<open>T\<close> at which the sketch reads
  the key.
\<close>

record JsonDocument =
  doc_primarySSID :: "string option"
  doc_primaryPass :: "string option"
  doc_apSSID :: "string option"
  doc_apPass :: "string option"
  doc_channel :: "int option"
  doc_maxClients :: "int option"
  doc_powerSaving :: "bool option"
  doc_powerMode :: "int option"
  doc_listenInterval :: "int option"

text \<open>
  \<^verbatim>\<open>parseConfig\<close> after a successful parse, one function for each block of lines
  91-171. Each takes and returns the globals and the two locals \<^verbatim>\<open>configChanged\<close> and
  \<^verbatim>\<open>wifiChanged\<close>.
\<close>

type_synonym frame = "state \<times> bool \<times> bool"

fun parse_primary :: "JsonDocument \<Rightarrow> frame \<Rightarrow> frame" where
  "parse_primary doc (st, configChanged, wifiChanged) =
     (case (doc_primarySSID doc, doc_primaryPass doc) of
        (Some newSSID, Some newPass) \<Rightarrow>
          if newSSID \<noteq> primarySSID st \<or> newPass \<noteq> primaryPassword st
          then (Serial_println (Str ''Primary WiFi settings updated'')
                  (st\<lparr>primarySSID := newSSID, primaryPassword := newPass\<rparr>), True, True)
          else (st, configChanged, wifiChanged)
      | _ \<Rightarrow> (st, configChanged, wifiChanged))"

fun parse_repeater :: "JsonDocument \<Rightarrow> frame \<Rightarrow> frame" where
  "parse_repeater doc (st, configChanged, wifiChanged) =
     (case (doc_apSSID doc, doc_apPass doc) of
        (Some newAPSSID, Some newAPPass) \<Rightarrow>
          if newAPSSID \<noteq> apSSID st \<or> newAPPass \<noteq> apPassword st
          then (Serial_println (Str ''AP settings updated'')
                  (st\<lparr>apSSID := newAPSSID, apPassword := newAPPass\<rparr>), True, wifiChanged)
          else (st, configChanged, wifiChanged)
      | _ \<Rightarrow> (st, configChanged, wifiChanged))"

fun parse_channel :: "JsonDocument \<Rightarrow> frame \<Rightarrow> frame" where
  "parse_channel doc (st, configChanged, wifiChanged) =
     (case doc_channel doc of
        Some newChannel \<Rightarrow>
          if newChannel \<noteq> apChannel st \<and> newChannel \<ge> 1 \<and> newChannel \<le> 13
          then (Serial_println (Str ''AP channel updated'') (st\<lparr>apChannel := newChannel\<rparr>),
                True, wifiChanged)
          else (st, configChanged, wifiChanged)
      | None \<Rightarrow> (st, configChanged, wifiChanged))"

fun parse_maxClients :: "JsonDocument \<Rightarrow> frame \<Rightarrow> frame" where
  "parse_maxClients doc (st, configChanged, wifiChanged) =
     (case doc_maxClients doc of
        Some newMaxClients \<Rightarrow>
          if newMaxClients \<noteq> maxClients st \<and> newMaxClients > 0 \<and> newMaxClients \<le> 10
          then (Serial_println (Str ''Max clients updated'') (st\<lparr>maxClients := newMaxClients\<rparr>),
                True, wifiChanged)
          else (st, configChanged, wifiChanged)
      | None \<Rightarrow> (st, configChanged, wifiChanged))"

fun parse_powerSaving :: "JsonDocument \<Rightarrow> frame \<Rightarrow> frame" where
  "parse_powerSaving doc (st, configChanged, wifiChanged) =
     (case doc_powerSaving doc of
        Some newPowerSaving \<Rightarrow>
          if newPowerSaving \<noteq> powerSavingEnabled st
          then (let st = st\<lparr>powerSavingEnabled := newPowerSaving\<rparr>;
                    st = Serial_print (Str ''Power saving mode '') st
                in Serial_println (Str (if powerSavingEnabled st then ''enabled'' else ''disabled'')) st,
                True, wifiChanged)
          else (st, configChanged, wifiChanged)
      | None \<Rightarrow> (st, configChanged, wifiChanged))"

text \<open>Lines 149-161: the one block that does not compare the new value with the stored one.\<close>

fun parse_powerMode :: "JsonDocument \<Rightarrow> frame \<Rightarrow> frame" where
  "parse_powerMode doc (st, configChanged, wifiChanged) =
     (case doc_powerMode doc of
        Some newPowerMode \<Rightarrow>
          if newPowerMode \<ge> 0 \<and> newPowerMode \<le> 2
          then (let st = (if newPowerMode = 0 then st\<lparr>powerSaveMode := WIFI_PS_NONE\<rparr>
                          else if newPowerMode = 1 then st\<lparr>powerSaveMode := WIFI_PS_MIN_MODEM\<rparr>
                          else if newPowerMode = 2 then st\<lparr>powerSaveMode := WIFI_PS_MAX_MODEM\<rparr>
                          else st);
                    st = Serial_print (Str ''Power save mode set to: '') st
                in Serial_println (Num newPowerMode) st,
                True, wifiChanged)
          else (st, configChanged, wifiChanged)
      | None \<Rightarrow> (st, configChanged, wifiChanged))"

text \<open>
  Lines 163-171: \<^verbatim>\<open>listenInterval\<close> is a \<^verbatim>\<open>uint16_t\<close>, promoted to \<^verbatim>\<open>int\<close> for the
  comparison; the assignment converts back.
\<close>

fun parse_listenInterval :: "JsonDocument \<Rightarrow> frame \<Rightarrow> frame" where
  "parse_listenInterval doc (st, configChanged, wifiChanged) =
     (case doc_listenInterval doc of
        Some newInterval \<Rightarrow>
          if newInterval \<noteq> uint (listenInterval st) \<and> newInterval \<ge> 1 \<and> newInterval \<le> 10
          then (let st = st\<lparr>listenInterval := word_of_int newInterval\<rparr>;
                    st = Serial_print (Str ''Listen interval set to: '') st
                in Serial_println (Num (uint (listenInterval st))) st,
                True, wifiChanged)
          else (st, configChanged, wifiChanged)
      | None \<Rightarrow> (st, configChanged, wifiChanged))"

text \<open>Lines 88-171: the locals start false and the blocks run in source order.\<close>

definition parse_fields :: "JsonDocument \<Rightarrow> state \<Rightarrow> frame" where
  "parse_fields doc st =
     parse_listenInterval doc (parse_powerMode doc (parse_powerSaving doc
       (parse_maxClients doc (parse_channel doc (parse_repeater doc
         (parse_primary doc (st, False, False)))))))"

text \<open>
  \<^verbatim>\<open>ConfigCallbacks::parseConfig\<close>, lines 78-177. \<^verbatim>\<open>deserializeJson\<close> belongs to the
  JSON library and is a parameter: it answers with the text of its error (\<open>Inl\<close>) or with
  the document (\<open>Inr\<close>).
\<close>

definition parseConfig :: "(string \<Rightarrow> string + JsonDocument) \<Rightarrow> string \<Rightarrow> state \<Rightarrow> state" where
  "parseConfig deserializeJson jsonString st =
     (case deserializeJson jsonString of
        Inl error \<Rightarrow>
          Serial_println (Str error) (Serial_print (Str ''Failed to parse JSON: '') st)
      | Inr doc \<Rightarrow>
          (case parse_fields doc st of
             (st, configChanged, wifiChanged) \<Rightarrow>
               if configChanged then applySettings wifiChanged st else st))"

text \<open>
  \<^verbatim>\<open>ConfigCallbacks::onWrite\<close>, lines 69-76. \<^verbatim>\<open>String(value.c_str())\<close> stops at the
  first zero byte of the written value.
\<close>

definition onWrite :: "(string \<Rightarrow> string + JsonDocument) \<Rightarrow> string \<Rightarrow> state \<Rightarrow> state" where
  "onWrite deserializeJson val st =
     (if length val > 0 then
        (let st = Serial_println (Str ''Received configuration update:'') st;
             jsonStr = takeWhile (\<lambda>c. c \<noteq> CHR 0x00) val
         in parseConfig deserializeJson jsonStr st)
      else st)"

text \<open>\<^verbatim>\<open>ServerCallbacks\<close>, lines 53-66.\<close>

definition onConnect :: "state \<Rightarrow> state" where
  "onConnect st0 =
     (let st = st0\<lparr>deviceConnected := True\<rparr>;
          st = Serial_println (Str ''BLE Client connected'') st
      in updateBLEStatus st)"

definition onDisconnect :: "state \<Rightarrow> state" where
  "onDisconnect st0 =
     (let st = st0\<lparr>deviceConnected := False\<rparr>;
          st = Serial_println (Str ''BLE Client disconnected'') st
      in emit BLE_advertising_start st)"

section \<open>The connectivity supervisor\<close>

text \<open>\<^verbatim>\<open>loop()\<close>, lines 203-243: one tick.\<close>

definition loop :: "state \<Rightarrow> state" where
  "loop st0 =
     (let (status, st) = WiFi_status st0;
          st = (if status \<noteq> WL_CONNECTED then
                  (if \<not> isPrimaryConnected st
                        \<or> millis st - lastReconnectAttempt st > reconnectInterval
                   then
                     connectToPrimaryWiFi
                       (Serial_println
                          (Str ''Connection to primary WiFi lost. Attempting to reconnect...'')
                          (st\<lparr>isPrimaryConnected := False\<rparr>))
                   else st)
                else if \<not> isPrimaryConnected st then
                  updateBLEStatus
                    (printWiFiStatus
                      (Serial_println (Str ''Connection to primary WiFi established!'')
                        (st\<lparr>isPrimaryConnected := True\<rparr>)))
                else st);
          st = (if deviceConnected st then
                  (if millis st - lastBLEStatusTime st > 5000
                   then updateBLEStatus (st\<lparr>lastBLEStatusTime := millis st\<rparr>)
                   else st)
                else st);
          st = (if deviceConnected st \<noteq> oldDeviceConnected st
                then st\<lparr>oldDeviceConnected := deviceConnected st\<rparr>
                else st);
          st = (if millis st - lastStatusTime st > 60000
                then printStatus (st\<lparr>lastStatusTime := millis st\<rparr>)
                else st)
      in delay 100 st)"

section \<open>Observations\<close>

text \<open>The configuration store of the spec: the nine configuration globals.\<close>

definition store :: "state \<Rightarrow> string \<times> string \<times> string \<times> string \<times> int \<times> int \<times> bool \<times> 8 word \<times> 16 word" where
  "store st = (primarySSID st, primaryPassword st, apSSID st, apPassword st, apChannel st,
     maxClients st, powerSavingEnabled st, powerSaveMode st, listenInterval st)"

text \<open>
  Side effects are the calls that act on the radio or on the BLE characteristic; printing to
  the serial log and waiting are not.
\<close>

fun is_side_effect :: "event \<Rightarrow> bool" where
  "is_side_effect (Serial_print_ev p) = False"
| "is_side_effect (Serial_println_ev p) = False"
| "is_side_effect (delay_ev ms) = False"
| "is_side_effect e = True"

text \<open>The side effects so far, in program order.\<close>

definition side_effects :: "state \<Rightarrow> event list" where
  "side_effects st = filter is_side_effect (trace st)"

text \<open>The number of one-second waits (\<^verbatim>\<open>delay(1000)\<close>) so far.\<close>

definition polls :: "state \<Rightarrow> nat" where
  "polls st = count_list (trace st) (delay_ev 1000)"

text \<open>A world whose station link never comes up and whose JSON documents hold all they are given.\<close>

definition never_up :: world where
  "never_up = \<lparr> WiFi_status_at = (\<lambda>n. WL_DISCONNECTED), WiFi_SSID = [],
     WiFi_localIP = ''0.0.0.0'', WiFi_RSSI = 0, WiFi_macAddress = ''24:6F:28:00:00:01'',
     WiFi_softAPIP = ''192.168.4.1'', WiFi_softAPgetStationNum = 0, ESP_getFreeHeap = 200000,
     JsonDocument_keeps = (\<lambda>capacity members. members) \<rparr>"

text \<open>The content of the configuration store, in the order of the globals.\<close>

type_synonym config = "string \<times> string \<times> string \<times> string \<times> int \<times> int \<times> bool \<times> 8 word \<times> 16 word"

text \<open>
  The store after an update, in the spec's words (sections 3 and 4.1): a field absent from
  the input is left untouched; each field present is validated on its own against its
  bounds (channel 1-13, maxClients 1-10, powerMode 0-2, listenInterval 1-10); a field
  failing validation is dropped and the rest is still applied. Credentials are a field of
  two keys.
\<close>

definition spec_applyUpdate :: "JsonDocument \<Rightarrow> config \<Rightarrow> config" where
  "spec_applyUpdate doc c =
     (case c of (ssid, pass, ap_ssid, ap_pass, channel, clients, enabled, mode, interval) \<Rightarrow>
       ((case (doc_primarySSID doc, doc_primaryPass doc) of (Some s, Some p) \<Rightarrow> s | _ \<Rightarrow> ssid),
        (case (doc_primarySSID doc, doc_primaryPass doc) of (Some s, Some p) \<Rightarrow> p | _ \<Rightarrow> pass),
        (case (doc_apSSID doc, doc_apPass doc) of (Some s, Some p) \<Rightarrow> s | _ \<Rightarrow> ap_ssid),
        (case (doc_apSSID doc, doc_apPass doc) of (Some s, Some p) \<Rightarrow> p | _ \<Rightarrow> ap_pass),
        (case doc_channel doc of Some v \<Rightarrow> if 1 \<le> v \<and> v \<le> 13 then v else channel | None \<Rightarrow> channel),
        (case doc_maxClients doc of Some v \<Rightarrow> if 1 \<le> v \<and> v \<le> 10 then v else clients | None \<Rightarrow> clients),
        (case doc_powerSaving doc of Some b \<Rightarrow> b | None \<Rightarrow> enabled),
        (case doc_powerMode doc of Some v \<Rightarrow> if 0 \<le> v \<and> v \<le> 2 then word_of_int v else mode | None \<Rightarrow> mode),
        (case doc_listenInterval doc of Some v \<Rightarrow> if 1 \<le> v \<and> v \<le> 10 then word_of_int v else interval
         | None \<Rightarrow> interval)))"

text \<open>
  Everything of the state that is neither the configuration store nor the trace: two states
  with the same \<open>backstage\<close> agree on the supervisor's variables, the BLE flags, the
  clock and the world.
\<close>

definition backstage :: "state \<Rightarrow> state" where
  "backstage st = st\<lparr>primarySSID := [], primaryPassword := [], apSSID := [], apPassword := [],
     apChannel := 0, maxClients := 0, powerSavingEnabled := False, powerSaveMode := 0,
     listenInterval := 0, trace := []\<rparr>"

text \<open>The update without its out-of-range fields.\<close>

definition drop_invalid :: "JsonDocument \<Rightarrow> JsonDocument" where
  "drop_invalid doc = doc\<lparr>
     doc_channel := (case doc_channel doc of Some v \<Rightarrow> if 1 \<le> v \<and> v \<le> 13 then Some v else None
                     | None \<Rightarrow> None),
     doc_maxClients := (case doc_maxClients doc of Some v \<Rightarrow> if 1 \<le> v \<and> v \<le> 10 then Some v else None
                        | None \<Rightarrow> None),
     doc_powerMode := (case doc_powerMode doc of Some v \<Rightarrow> if 0 \<le> v \<and> v \<le> 2 then Some v else None
                       | None \<Rightarrow> None),
     doc_listenInterval := (case doc_listenInterval doc of
                              Some v \<Rightarrow> if 1 \<le> v \<and> v \<le> 10 then Some v else None
                            | None \<Rightarrow> None)\<rparr>"

text \<open>Sample documents: the empty object, and an update whose channel is out of range.\<close>

definition no_keys :: JsonDocument where
  "no_keys = \<lparr> doc_primarySSID = None, doc_primaryPass = None, doc_apSSID = None, doc_apPass = None,
     doc_channel = None, doc_maxClients = None, doc_powerSaving = None, doc_powerMode = None,
     doc_listenInterval = None \<rparr>"

definition bad_channel_update :: JsonDocument where
  "bad_channel_update = no_keys\<lparr> doc_apSSID := Some ''Annex'', doc_apPass := Some ''s3cret'',
     doc_channel := Some 99, doc_maxClients := Some 5, doc_listenInterval := Some 4 \<rparr>"

text \<open>The calls that tear down and re-establish the station connection.\<close>

fun is_station_call :: "event \<Rightarrow> bool" where
  "is_station_call WiFi_disconnect = True"
| "is_station_call (WiFi_begin ssid pass) = True"
| "is_station_call e = False"

text \<open>Sample documents: new station credentials, and a new channel only.\<close>

definition new_station_update :: JsonDocument where
  "new_station_update = no_keys\<lparr> doc_primarySSID := Some ''Foo'', doc_primaryPass := Some ''bar'' \<rparr>"

definition channel_update :: JsonDocument where
  "channel_update = no_keys\<lparr> doc_channel := Some 5 \<rparr>"

text \<open>The initial state with a BLE peer connected.\<close>

definition with_peer :: state where
  "with_peer = (initial never_up)\<lparr>deviceConnected := True\<rparr>"

text \<open>The update without the credential keys whose partner key is absent.\<close>

definition drop_unpaired :: "JsonDocument \<Rightarrow> JsonDocument" where
  "drop_unpaired doc = doc\<lparr>
     doc_primarySSID := (if doc_primaryPass doc = None then None else doc_primarySSID doc),
     doc_primaryPass := (if doc_primarySSID doc = None then None else doc_primaryPass doc),
     doc_apSSID := (if doc_apPass doc = None then None else doc_apSSID doc),
     doc_apPass := (if doc_apSSID doc = None then None else doc_apPass doc)\<rparr>"

text \<open>Sample document: a station SSID without its passphrase, and an AP passphrase without its SSID.\<close>

definition lone_keys_update :: JsonDocument where
  "lone_keys_update = no_keys\<lparr> doc_primarySSID := Some ''Foo'', doc_apPass := Some ''s3cret'' \<rparr>"

text \<open>
  The invariants of the configuration store (spec section 3). The credentials are Arduino
  \<^verbatim>\<open>String\<close> objects, here values of type \<open>string\<close>: there is no null among them.
\<close>

definition store_inv :: "state \<Rightarrow> bool" where
  "store_inv st =
     (1 \<le> apChannel st \<and> apChannel st \<le> 13
      \<and> 1 \<le> maxClients st \<and> maxClients st \<le> 10
      \<and> 1 \<le> listenInterval st \<and> listenInterval st \<le> 10
      \<and> (powerSaveMode st = WIFI_PS_NONE \<or> powerSaveMode st = WIFI_PS_MIN_MODEM
           \<or> powerSaveMode st = WIFI_PS_MAX_MODEM))"

text \<open>
  The states the sketch can be in: the initialisers, then any interleaving of the calls that
  \<^verbatim>\<open>setup()\<close> makes on the modelled globals, supervisor ticks, BLE callbacks, and the
  passing of time with new readings of the world.
\<close>

inductive reachable :: "(string \<Rightarrow> string + JsonDocument) \<Rightarrow> state \<Rightarrow> bool"
  for deserializeJson :: "string \<Rightarrow> string + JsonDocument" where
  boot: "reachable deserializeJson (initial w)"
| setup_connect: "reachable deserializeJson st \<Longrightarrow> reachable deserializeJson (connectToPrimaryWiFi st)"
| setup_power: "reachable deserializeJson st \<Longrightarrow> reachable deserializeJson (applyPowerSavingSettings st)"
| tick: "reachable deserializeJson st \<Longrightarrow> reachable deserializeJson (loop st)"
| ble_connect: "reachable deserializeJson st \<Longrightarrow> reachable deserializeJson (onConnect st)"
| ble_disconnect: "reachable deserializeJson st \<Longrightarrow> reachable deserializeJson (onDisconnect st)"
| ble_write: "reachable deserializeJson st \<Longrightarrow> reachable deserializeJson (onWrite deserializeJson val st)"
| elapse: "reachable deserializeJson st \<Longrightarrow> reachable deserializeJson (st\<lparr>world := w, millis := t\<rparr>)"

text \<open>The twelve keys of the status payload, in the order of lines 376-395.\<close>

definition status_keys :: "string list" where
  "status_keys = [''primaryConnected'', ''primarySSID'', ''primaryIP'', ''primaryRSSI'', ''apSSID'',
     ''apIP'', ''connectedClients'', ''powerSaving'', ''powerMode'', ''listenInterval'',
     ''freeHeap'', ''uptime'']"

text \<open>The station calls so far, in program order.\<close>

definition station_calls :: "state \<Rightarrow> event list" where
  "station_calls st = filter is_station_call (trace st)"

text \<open>Sample document: the power-save mode that is already stored by default.\<close>

definition power_mode_update :: JsonDocument where
  "power_mode_update = no_keys\<lparr> doc_powerMode := Some 1 \<rparr>"

text \<open>
  A write whose bytes are not a JSON text: the object \<^verbatim>\<open>{"channel":5}\<close>, a zero byte, and
  more bytes. The parser used with it accepts that object alone and reports an error for
  every other text, this write included.
\<close>

definition channel_text :: string where
  \<open>channel_text = ''{"channel":5}''\<close>

definition nul_write :: string where
  "nul_write = channel_text @ [CHR 0x00] @ ''junk}''"

definition only_channel_parser :: "string \<Rightarrow> string + JsonDocument" where
  "only_channel_parser jsonString =
     (if jsonString = channel_text then Inr channel_update else Inl ''InvalidInput'')"

text \<open>
  A JSON library whose documents charge 16 bytes for a member and one byte more than its
  length for a string value, and hold the members assigned to them, in order, as long as
  the charge stays within the capacity.
\<close>

fun member_charge :: "string \<times> json \<Rightarrow> nat" where
  "member_charge (k, JStr s) = 16 + (length s + 1)"
| "member_charge (k, v) = 16"

fun pool_keeps :: "nat \<Rightarrow> JsonObject \<Rightarrow> JsonObject" where
  "pool_keeps capacity [] = []"
| "pool_keeps capacity (m # ms) =
     (if member_charge m \<le> capacity then m # pool_keeps (capacity - member_charge m) ms else [])"

definition small_pool :: world where
  "small_pool = never_up\<lparr>JsonDocument_keeps := pool_keeps\<rparr>"

text \<open>
  Two writes of fewer than 512 bytes each, which give the station and the access point
  names of 450 characters, and the parser that reads them.
\<close>

definition long_station_update :: JsonDocument where
  "long_station_update =
     no_keys\<lparr> doc_primarySSID := Some (replicate 450 CHR ''a''), doc_primaryPass := Some [] \<rparr>"

definition long_ap_update :: JsonDocument where
  "long_ap_update = no_keys\<lparr> doc_apSSID := Some (replicate 450 CHR ''b''), doc_apPass := Some [] \<rparr>"

definition long_station_text :: string where
  \<open>long_station_text = ''{"primarySSID":"'' @ replicate 450 CHR ''a'' @ ''","primaryPass":""}''\<close>

definition long_ap_text :: string where
  \<open>long_ap_text = ''{"apSSID":"'' @ replicate 450 CHR ''b'' @ ''","apPass":""}''\<close>

definition long_names_parser :: "string \<Rightarrow> string + JsonDocument" where
  "long_names_parser jsonString =
     (if jsonString = long_station_text then Inr long_station_update
      else if jsonString = long_ap_text then Inr long_ap_update
      else Inl ''InvalidInput'')"

definition long_names_state :: state where
  "long_names_state =
     onWrite long_names_parser long_ap_text
       (onWrite long_names_parser long_station_text (onConnect (initial small_pool)))"

section \<open>Properties\<close>

subsection \<open>The station connection attempt\<close>

lemmas prims = emit_def Serial_print_def Serial_println_def delay_def WiFi_status_def

lemma printWiFiStatus_keeps [simp]:
  "store (printWiFiStatus st) = store st"
  "side_effects (printWiFiStatus st) = side_effects st"
  "polls (printWiFiStatus st) = polls st"
  "deviceConnected (printWiFiStatus st) = deviceConnected st"
  "isPrimaryConnected (printWiFiStatus st) = isPrimaryConnected st"
  "lastReconnectAttempt (printWiFiStatus st) = lastReconnectAttempt st"
  "millis (printWiFiStatus st) = millis st"
  "world (printWiFiStatus st) = world st"
  "status_calls (printWiFiStatus st) = status_calls st"
  by (simp_all add: printWiFiStatus_def Let_def prims store_def side_effects_def polls_def)

lemma wait_keeps [simp]:
  "primarySSID (wait_for_connection n st) = primarySSID st"
  "primaryPassword (wait_for_connection n st) = primaryPassword st"
  "apSSID (wait_for_connection n st) = apSSID st"
  "apPassword (wait_for_connection n st) = apPassword st"
  "apChannel (wait_for_connection n st) = apChannel st"
  "maxClients (wait_for_connection n st) = maxClients st"
  "powerSavingEnabled (wait_for_connection n st) = powerSavingEnabled st"
  "powerSaveMode (wait_for_connection n st) = powerSaveMode st"
  "listenInterval (wait_for_connection n st) = listenInterval st"
  "deviceConnected (wait_for_connection n st) = deviceConnected st"
  "isPrimaryConnected (wait_for_connection n st) = isPrimaryConnected st"
  "lastReconnectAttempt (wait_for_connection n st) = lastReconnectAttempt st"
  "world (wait_for_connection n st) = world st"
  "filter is_side_effect (trace (wait_for_connection n st)) = filter is_side_effect (trace st)"
  by (induction n st rule: wait_for_connection.induct;
      subst wait_for_connection.simps;
      simp add: Let_def prims split: prod.splits)+

lemma wait_polls:
  "polls (wait_for_connection n st) \<le> polls st + (20 - n)"
proof (induction n st rule: wait_for_connection.induct)
  case (1 n st0)
  show ?case
  proof (cases "WiFi_status_at (world st0) (status_calls st0) \<noteq> WL_CONNECTED \<and> n < 20")
    case True
    let ?st = "Serial_print (Str ''.'') (delay 1000 (snd (WiFi_status st0)))"
    have eq: "wait_for_connection n st0 = wait_for_connection (n + 1) ?st"
      using True by (subst wait_for_connection.simps) (simp add: WiFi_status_def)
    have "polls (wait_for_connection (n + 1) ?st) \<le> polls ?st + (20 - (n + 1))"
      using True by (intro "1.IH"[OF refl prod.collapse]) (simp add: WiFi_status_def)
    also have "polls ?st = polls st0 + 1"
      by (simp add: prims polls_def)
    also have "polls st0 + 1 + (20 - (n + 1)) = polls st0 + (20 - n)"
      using True by linarith
    finally show ?thesis
      by (simp only: eq)
  next
    case False
    then show ?thesis
      by (subst wait_for_connection.simps) (auto simp add: prims polls_def)
  qed
qed

lemma wait_status_calls:
  "status_calls (wait_for_connection n st) \<le> status_calls st + 1 + (20 - n)"
proof (induction n st rule: wait_for_connection.induct)
  case (1 n st0)
  show ?case
  proof (cases "WiFi_status_at (world st0) (status_calls st0) \<noteq> WL_CONNECTED \<and> n < 20")
    case True
    let ?st = "Serial_print (Str ''.'') (delay 1000 (snd (WiFi_status st0)))"
    have eq: "wait_for_connection n st0 = wait_for_connection (n + 1) ?st"
      using True by (subst wait_for_connection.simps) (simp add: WiFi_status_def)
    have "status_calls (wait_for_connection (n + 1) ?st) \<le> status_calls ?st + 1 + (20 - (n + 1))"
      using True by (intro "1.IH"[OF refl prod.collapse]) (simp add: WiFi_status_def)
    also have "status_calls ?st = status_calls st0 + 1"
      by (simp add: prims)
    also have "status_calls st0 + 1 + 1 + (20 - (n + 1)) = status_calls st0 + 1 + (20 - n)"
      using True by linarith
    finally show ?thesis
      by (simp only: eq)
  next
    case False
    then show ?thesis
      by (subst wait_for_connection.simps) (auto simp add: prims)
  qed
qed

lemma wait_never_connected:
  assumes "\<forall>k. WiFi_status_at (world st) k \<noteq> WL_CONNECTED" and "n \<le> 20"
  shows "polls (wait_for_connection n st) = polls st + (20 - n)
       \<and> millis (wait_for_connection n st) = millis st + 1000 * of_nat (20 - n)
       \<and> status_calls (wait_for_connection n st) = status_calls st + 1 + (20 - n)"
  using assms
proof (induction n st rule: wait_for_connection.induct)
  case (1 n st0)
  show ?case
  proof (cases "n < 20")
    case True
    let ?st = "Serial_print (Str ''.'') (delay 1000 (snd (WiFi_status st0)))"
    have eq: "wait_for_connection n st0 = wait_for_connection (n + 1) ?st"
      using True "1.prems" by (subst wait_for_connection.simps) (simp add: WiFi_status_def)
    have w: "world ?st = world st0"
      by (simp add: prims)
    have ih: "polls (wait_for_connection (n + 1) ?st) = polls ?st + (20 - (n + 1))
       \<and> millis (wait_for_connection (n + 1) ?st) = millis ?st + 1000 * of_nat (20 - (n + 1))
       \<and> status_calls (wait_for_connection (n + 1) ?st) = status_calls ?st + 1 + (20 - (n + 1))"
      using True "1.prems" by (intro "1.IH"[OF refl prod.collapse]) (simp_all add: prims)
    have p: "polls ?st = polls st0 + 1" "millis ?st = millis st0 + 1000"
      "status_calls ?st = status_calls st0 + 1"
      by (simp_all add: prims polls_def)
    have k: "20 - n = Suc (20 - (n + 1))"
      using True by linarith
    show ?thesis
      unfolding eq using ih p by (simp add: k algebra_simps)
  next
    case False
    with "1.prems" have "n = 20" by simp
    then show ?thesis
      by (subst (1 2 3) wait_for_connection.simps) (simp add: prims polls_def)
  qed
qed

lemma connect_keeps [simp]:
  "store (connectToPrimaryWiFi st) = store st"
  "deviceConnected (connectToPrimaryWiFi st) = deviceConnected st"
  "world (connectToPrimaryWiFi st) = world st"
  "side_effects (connectToPrimaryWiFi st) =
     side_effects st @ [WiFi_disconnect, WiFi_begin (primarySSID st) (primaryPassword st)]"
  by (simp_all add: connectToPrimaryWiFi_def printWiFiStatus_def Let_def prims store_def side_effects_def
        split: prod.splits)

lemma connect_link:
  "lastReconnectAttempt (connectToPrimaryWiFi st) = millis (connectToPrimaryWiFi st)"
  "isPrimaryConnected (connectToPrimaryWiFi st) =
     (WiFi_status_at (world st) (status_calls (connectToPrimaryWiFi st) - 1) = WL_CONNECTED)"
  by (simp_all add: connectToPrimaryWiFi_def printWiFiStatus_def Let_def prims split: prod.splits)

lemma connect_polls: "polls (connectToPrimaryWiFi st) \<le> polls st + 20"
proof -
  let ?st = "emit (WiFi_begin (primarySSID st) (primaryPassword st))
     (delay 100 (emit WiFi_disconnect (Serial_println (Str (primarySSID st))
        (Serial_print (Str ''Connecting to primary WiFi network '') st))))"
  have "polls (wait_for_connection 0 ?st) \<le> polls ?st + (20 - 0)"
    by (rule wait_polls)
  moreover have "polls ?st = polls st"
    by (simp add: prims polls_def)
  moreover have "polls (connectToPrimaryWiFi st) = polls (wait_for_connection 0 ?st)"
    by (simp add: connectToPrimaryWiFi_def printWiFiStatus_def Let_def prims polls_def split: prod.splits)
  ultimately show ?thesis by simp
qed

lemma connect_status_calls: "status_calls (connectToPrimaryWiFi st) \<le> status_calls st + 22"
proof -
  let ?st = "emit (WiFi_begin (primarySSID st) (primaryPassword st))
     (delay 100 (emit WiFi_disconnect (Serial_println (Str (primarySSID st))
        (Serial_print (Str ''Connecting to primary WiFi network '') st))))"
  have "status_calls (wait_for_connection 0 ?st) \<le> status_calls ?st + 1 + (20 - 0)"
    by (rule wait_status_calls)
  moreover have "status_calls ?st = status_calls st"
    by (simp add: prims)
  moreover have "status_calls (connectToPrimaryWiFi st) = Suc (status_calls (wait_for_connection 0 ?st))"
    by (simp add: connectToPrimaryWiFi_def printWiFiStatus_def Let_def prims split: prod.splits)
  ultimately show ?thesis by simp
qed

lemma connect_never_connected:
  assumes "\<forall>k. WiFi_status_at (world st) k \<noteq> WL_CONNECTED"
  shows "\<not> isPrimaryConnected (connectToPrimaryWiFi st)"
    and "polls (connectToPrimaryWiFi st) = polls st + 20"
    and "millis (connectToPrimaryWiFi st) = millis st + 20100"
proof -
  let ?st = "emit (WiFi_begin (primarySSID st) (primaryPassword st))
     (delay 100 (emit WiFi_disconnect (Serial_println (Str (primarySSID st))
        (Serial_print (Str ''Connecting to primary WiFi network '') st))))"
  have w: "world ?st = world st" by (simp add: prims)
  have "polls (wait_for_connection 0 ?st) = polls ?st + (20 - 0)
       \<and> millis (wait_for_connection 0 ?st) = millis ?st + 1000 * of_nat (20 - 0)
       \<and> status_calls (wait_for_connection 0 ?st) = status_calls ?st + 1 + (20 - 0)"
    using assms by (intro wait_never_connected) (simp_all add: w)
  moreover have "polls ?st = polls st" "millis ?st = millis st + 100"
    by (simp_all add: prims polls_def)
  moreover have "polls (connectToPrimaryWiFi st) = polls (wait_for_connection 0 ?st)"
    "millis (connectToPrimaryWiFi st) = millis (wait_for_connection 0 ?st)"
    by (simp_all add: connectToPrimaryWiFi_def printWiFiStatus_def Let_def prims polls_def split: prod.splits)
  ultimately show "polls (connectToPrimaryWiFi st) = polls st + 20"
    and "millis (connectToPrimaryWiFi st) = millis st + 20100"
    by simp_all
  show "\<not> isPrimaryConnected (connectToPrimaryWiFi st)"
    using assms by (simp add: connect_link)
qed

text \<open>
  C8: every station connection attempt terminates (\<open>connectToPrimaryWiFi\<close> is a total
  function, its loop bounded by the counter). It waits one second at most 20 times and queries
  the link status at most 22 times. It always records the time at its end as the
  last-attempt timestamp, and \<^verbatim>\<open>isPrimaryConnected\<close> is true exactly when its last status
  query answered connected. When the link never comes up it gives up after exactly 20
  waits, 20100 ms after it started, and leaves \<^verbatim>\<open>isPrimaryConnected\<close> false.
\<close>

theorem connection_attempt_bounded:
  "polls (connectToPrimaryWiFi st) \<le> polls st + 20
   \<and> status_calls (connectToPrimaryWiFi st) \<le> status_calls st + 22
   \<and> lastReconnectAttempt (connectToPrimaryWiFi st) = millis (connectToPrimaryWiFi st)
   \<and> isPrimaryConnected (connectToPrimaryWiFi st) =
       (WiFi_status_at (world st) (status_calls (connectToPrimaryWiFi st) - 1) = WL_CONNECTED)
   \<and> ((\<forall>k. WiFi_status_at (world st) k \<noteq> WL_CONNECTED) \<longrightarrow>
         \<not> isPrimaryConnected (connectToPrimaryWiFi st)
         \<and> polls (connectToPrimaryWiFi st) = polls st + 20
         \<and> millis (connectToPrimaryWiFi st) = millis st + 20100)"
  using connect_polls connect_status_calls connect_link connect_never_connected by blast

theorem connection_attempt_bounded_witness:
  "\<not> isPrimaryConnected (connectToPrimaryWiFi (initial never_up))
   \<and> polls (connectToPrimaryWiFi (initial never_up)) = 20
   \<and> lastReconnectAttempt (connectToPrimaryWiFi (initial never_up)) = 20100"
  using connection_attempt_bounded [of "initial never_up"]
  by (simp add: initial_def never_up_def polls_def)

subsection \<open>The configuration reconciler\<close>

lemma parse_primary_obs:
  "backstage (fst (parse_primary doc fr)) = backstage (fst fr)"
  "side_effects (fst (parse_primary doc fr)) = side_effects (fst fr)"
  "store (fst (parse_primary doc fr)) =
     (case store (fst fr) of (ssid, pass, rest) \<Rightarrow>
       ((case (doc_primarySSID doc, doc_primaryPass doc) of (Some s, Some p) \<Rightarrow> s | _ \<Rightarrow> ssid),
        (case (doc_primarySSID doc, doc_primaryPass doc) of (Some s, Some p) \<Rightarrow> p | _ \<Rightarrow> pass),
        rest))"
  "fst (snd (parse_primary doc fr)) = (fst (snd fr) \<or> store (fst (parse_primary doc fr)) \<noteq> store (fst fr))"
  "snd (snd (parse_primary doc fr)) = (snd (snd fr) \<or> store (fst (parse_primary doc fr)) \<noteq> store (fst fr))"
proof -
  obtain st configChanged wifiChanged where "fr = (st, configChanged, wifiChanged)"
    by (cases fr)
  then show "backstage (fst (parse_primary doc fr)) = backstage (fst fr)"
    and "side_effects (fst (parse_primary doc fr)) = side_effects (fst fr)"
    and "store (fst (parse_primary doc fr)) =
       (case store (fst fr) of (ssid, pass, rest) \<Rightarrow>
         ((case (doc_primarySSID doc, doc_primaryPass doc) of (Some s, Some p) \<Rightarrow> s | _ \<Rightarrow> ssid),
          (case (doc_primarySSID doc, doc_primaryPass doc) of (Some s, Some p) \<Rightarrow> p | _ \<Rightarrow> pass),
          rest))"
    and "fst (snd (parse_primary doc fr)) = (fst (snd fr) \<or> store (fst (parse_primary doc fr)) \<noteq> store (fst fr))"
    and "snd (snd (parse_primary doc fr)) = (snd (snd fr) \<or> store (fst (parse_primary doc fr)) \<noteq> store (fst fr))"
    by (auto simp add: prims Let_def backstage_def side_effects_def store_def split: option.splits)
qed

lemma parse_repeater_obs:
  "backstage (fst (parse_repeater doc fr)) = backstage (fst fr)"
  "side_effects (fst (parse_repeater doc fr)) = side_effects (fst fr)"
  "store (fst (parse_repeater doc fr)) =
     (case store (fst fr) of (ssid, pass, ap_ssid, ap_pass, rest) \<Rightarrow>
       (ssid, pass,
        (case (doc_apSSID doc, doc_apPass doc) of (Some s, Some p) \<Rightarrow> s | _ \<Rightarrow> ap_ssid),
        (case (doc_apSSID doc, doc_apPass doc) of (Some s, Some p) \<Rightarrow> p | _ \<Rightarrow> ap_pass),
        rest))"
  "fst (snd (parse_repeater doc fr)) = (fst (snd fr) \<or> store (fst (parse_repeater doc fr)) \<noteq> store (fst fr))"
  "snd (snd (parse_repeater doc fr)) = snd (snd fr)"
proof -
  obtain st configChanged wifiChanged where "fr = (st, configChanged, wifiChanged)"
    by (cases fr)
  then show "backstage (fst (parse_repeater doc fr)) = backstage (fst fr)"
    and "side_effects (fst (parse_repeater doc fr)) = side_effects (fst fr)"
    and "store (fst (parse_repeater doc fr)) =
       (case store (fst fr) of (ssid, pass, ap_ssid, ap_pass, rest) \<Rightarrow>
         (ssid, pass,
          (case (doc_apSSID doc, doc_apPass doc) of (Some s, Some p) \<Rightarrow> s | _ \<Rightarrow> ap_ssid),
          (case (doc_apSSID doc, doc_apPass doc) of (Some s, Some p) \<Rightarrow> p | _ \<Rightarrow> ap_pass),
          rest))"
    and "fst (snd (parse_repeater doc fr)) = (fst (snd fr) \<or> store (fst (parse_repeater doc fr)) \<noteq> store (fst fr))"
    and "snd (snd (parse_repeater doc fr)) = snd (snd fr)"
    by (auto simp add: prims Let_def backstage_def side_effects_def store_def split: option.splits)
qed

lemma parse_channel_obs:
  "backstage (fst (parse_channel doc fr)) = backstage (fst fr)"
  "side_effects (fst (parse_channel doc fr)) = side_effects (fst fr)"
  "store (fst (parse_channel doc fr)) =
     (case store (fst fr) of (ssid, pass, ap_ssid, ap_pass, channel, rest) \<Rightarrow>
       (ssid, pass, ap_ssid, ap_pass,
        (case doc_channel doc of Some v \<Rightarrow> if 1 \<le> v \<and> v \<le> 13 then v else channel | None \<Rightarrow> channel),
        rest))"
  "fst (snd (parse_channel doc fr)) = (fst (snd fr) \<or> store (fst (parse_channel doc fr)) \<noteq> store (fst fr))"
  "snd (snd (parse_channel doc fr)) = snd (snd fr)"
proof -
  obtain st configChanged wifiChanged where "fr = (st, configChanged, wifiChanged)"
    by (cases fr)
  then show "backstage (fst (parse_channel doc fr)) = backstage (fst fr)"
    and "side_effects (fst (parse_channel doc fr)) = side_effects (fst fr)"
    and "store (fst (parse_channel doc fr)) =
       (case store (fst fr) of (ssid, pass, ap_ssid, ap_pass, channel, rest) \<Rightarrow>
         (ssid, pass, ap_ssid, ap_pass,
          (case doc_channel doc of Some v \<Rightarrow> if 1 \<le> v \<and> v \<le> 13 then v else channel | None \<Rightarrow> channel),
          rest))"
    and "fst (snd (parse_channel doc fr)) = (fst (snd fr) \<or> store (fst (parse_channel doc fr)) \<noteq> store (fst fr))"
    and "snd (snd (parse_channel doc fr)) = snd (snd fr)"
    by (auto simp add: prims Let_def backstage_def side_effects_def store_def split: option.splits)
qed

lemma parse_maxClients_obs:
  "backstage (fst (parse_maxClients doc fr)) = backstage (fst fr)"
  "side_effects (fst (parse_maxClients doc fr)) = side_effects (fst fr)"
  "store (fst (parse_maxClients doc fr)) =
     (case store (fst fr) of (ssid, pass, ap_ssid, ap_pass, channel, clients, rest) \<Rightarrow>
       (ssid, pass, ap_ssid, ap_pass, channel,
        (case doc_maxClients doc of Some v \<Rightarrow> if 1 \<le> v \<and> v \<le> 10 then v else clients | None \<Rightarrow> clients),
        rest))"
  "fst (snd (parse_maxClients doc fr)) = (fst (snd fr) \<or> store (fst (parse_maxClients doc fr)) \<noteq> store (fst fr))"
  "snd (snd (parse_maxClients doc fr)) = snd (snd fr)"
proof -
  obtain st configChanged wifiChanged where "fr = (st, configChanged, wifiChanged)"
    by (cases fr)
  then show "backstage (fst (parse_maxClients doc fr)) = backstage (fst fr)"
    and "side_effects (fst (parse_maxClients doc fr)) = side_effects (fst fr)"
    and "store (fst (parse_maxClients doc fr)) =
       (case store (fst fr) of (ssid, pass, ap_ssid, ap_pass, channel, clients, rest) \<Rightarrow>
         (ssid, pass, ap_ssid, ap_pass, channel,
          (case doc_maxClients doc of Some v \<Rightarrow> if 1 \<le> v \<and> v \<le> 10 then v else clients | None \<Rightarrow> clients),
          rest))"
    and "fst (snd (parse_maxClients doc fr)) = (fst (snd fr) \<or> store (fst (parse_maxClients doc fr)) \<noteq> store (fst fr))"
    and "snd (snd (parse_maxClients doc fr)) = snd (snd fr)"
    by (auto simp add: prims Let_def backstage_def side_effects_def store_def split: option.splits)
qed

lemma parse_powerSaving_obs:
  "backstage (fst (parse_powerSaving doc fr)) = backstage (fst fr)"
  "side_effects (fst (parse_powerSaving doc fr)) = side_effects (fst fr)"
  "store (fst (parse_powerSaving doc fr)) =
     (case store (fst fr) of (ssid, pass, ap_ssid, ap_pass, channel, clients, enabled, rest) \<Rightarrow>
       (ssid, pass, ap_ssid, ap_pass, channel, clients,
        (case doc_powerSaving doc of Some b \<Rightarrow> b | None \<Rightarrow> enabled),
        rest))"
  "fst (snd (parse_powerSaving doc fr)) = (fst (snd fr) \<or> store (fst (parse_powerSaving doc fr)) \<noteq> store (fst fr))"
  "snd (snd (parse_powerSaving doc fr)) = snd (snd fr)"
proof -
  obtain st configChanged wifiChanged where "fr = (st, configChanged, wifiChanged)"
    by (cases fr)
  then show "backstage (fst (parse_powerSaving doc fr)) = backstage (fst fr)"
    and "side_effects (fst (parse_powerSaving doc fr)) = side_effects (fst fr)"
    and "store (fst (parse_powerSaving doc fr)) =
       (case store (fst fr) of (ssid, pass, ap_ssid, ap_pass, channel, clients, enabled, rest) \<Rightarrow>
         (ssid, pass, ap_ssid, ap_pass, channel, clients,
          (case doc_powerSaving doc of Some b \<Rightarrow> b | None \<Rightarrow> enabled),
          rest))"
    and "fst (snd (parse_powerSaving doc fr)) = (fst (snd fr) \<or> store (fst (parse_powerSaving doc fr)) \<noteq> store (fst fr))"
    and "snd (snd (parse_powerSaving doc fr)) = snd (snd fr)"
    by (auto simp add: prims Let_def backstage_def side_effects_def store_def split: option.splits)
qed

lemma powerMode_switch:
  assumes "0 \<le> v" and "v \<le> 2"
  shows "(if v = 0 then st\<lparr>powerSaveMode := WIFI_PS_NONE\<rparr>
          else if v = 1 then st\<lparr>powerSaveMode := WIFI_PS_MIN_MODEM\<rparr>
          else if v = 2 then st\<lparr>powerSaveMode := WIFI_PS_MAX_MODEM\<rparr>
          else st) = st\<lparr>powerSaveMode := word_of_int v\<rparr>"
proof -
  from assms have "v = 0 \<or> v = 1 \<or> v = 2" by arith
  then show ?thesis
    by (elim disjE) (simp_all add: WIFI_PS_NONE_def WIFI_PS_MIN_MODEM_def WIFI_PS_MAX_MODEM_def)
qed

lemma parse_powerMode_eq:
  "parse_powerMode doc (st, configChanged, wifiChanged) =
     (case doc_powerMode doc of
        Some v \<Rightarrow>
          if 0 \<le> v \<and> v \<le> 2
          then (Serial_println (Num v)
                  (Serial_print (Str ''Power save mode set to: '') (st\<lparr>powerSaveMode := word_of_int v\<rparr>)),
                True, wifiChanged)
          else (st, configChanged, wifiChanged)
      | None \<Rightarrow> (st, configChanged, wifiChanged))"
  by (simp add: Let_def powerMode_switch split: option.splits)

lemma parse_powerMode_obs:
  "backstage (fst (parse_powerMode doc fr)) = backstage (fst fr)"
  "side_effects (fst (parse_powerMode doc fr)) = side_effects (fst fr)"
  "store (fst (parse_powerMode doc fr)) =
     (case store (fst fr) of (ssid, pass, ap_ssid, ap_pass, channel, clients, enabled, mode, rest) \<Rightarrow>
       (ssid, pass, ap_ssid, ap_pass, channel, clients, enabled,
        (case doc_powerMode doc of Some v \<Rightarrow> if 0 \<le> v \<and> v \<le> 2 then word_of_int v else mode | None \<Rightarrow> mode),
        rest))"
  "fst (snd (parse_powerMode doc fr)) =
     (fst (snd fr) \<or> (case doc_powerMode doc of Some v \<Rightarrow> 0 \<le> v \<and> v \<le> 2 | None \<Rightarrow> False))"
  "snd (snd (parse_powerMode doc fr)) = snd (snd fr)"
proof -
  obtain st configChanged wifiChanged where "fr = (st, configChanged, wifiChanged)"
    by (cases fr)
  then show "backstage (fst (parse_powerMode doc fr)) = backstage (fst fr)"
    and "side_effects (fst (parse_powerMode doc fr)) = side_effects (fst fr)"
    and "store (fst (parse_powerMode doc fr)) =
       (case store (fst fr) of (ssid, pass, ap_ssid, ap_pass, channel, clients, enabled, mode, rest) \<Rightarrow>
         (ssid, pass, ap_ssid, ap_pass, channel, clients, enabled,
          (case doc_powerMode doc of Some v \<Rightarrow> if 0 \<le> v \<and> v \<le> 2 then word_of_int v else mode | None \<Rightarrow> mode),
          rest))"
    and "fst (snd (parse_powerMode doc fr)) =
       (fst (snd fr) \<or> (case doc_powerMode doc of Some v \<Rightarrow> 0 \<le> v \<and> v \<le> 2 | None \<Rightarrow> False))"
    and "snd (snd (parse_powerMode doc fr)) = snd (snd fr)"
    by (auto simp add: parse_powerMode_eq prims backstage_def side_effects_def store_def
          simp del: parse_powerMode.simps split: option.splits)
qed

lemma listen_interval_roundtrip:
  "word_of_int v = (w :: 16 word) \<Longrightarrow> 1 \<le> v \<Longrightarrow> v \<le> 10 \<Longrightarrow> v = uint w"
  by (auto simp add: uint_word_of_int)

lemma parse_listenInterval_obs:
  "backstage (fst (parse_listenInterval doc fr)) = backstage (fst fr)"
  "side_effects (fst (parse_listenInterval doc fr)) = side_effects (fst fr)"
  "store (fst (parse_listenInterval doc fr)) =
     (case store (fst fr) of (ssid, pass, ap_ssid, ap_pass, channel, clients, enabled, mode, interval) \<Rightarrow>
       (ssid, pass, ap_ssid, ap_pass, channel, clients, enabled, mode,
        (case doc_listenInterval doc of Some v \<Rightarrow> if 1 \<le> v \<and> v \<le> 10 then word_of_int v else interval
         | None \<Rightarrow> interval)))"
  "fst (snd (parse_listenInterval doc fr)) =
     (fst (snd fr) \<or> store (fst (parse_listenInterval doc fr)) \<noteq> store (fst fr))"
  "snd (snd (parse_listenInterval doc fr)) = snd (snd fr)"
proof -
  obtain st configChanged wifiChanged where "fr = (st, configChanged, wifiChanged)"
    by (cases fr)
  then show "backstage (fst (parse_listenInterval doc fr)) = backstage (fst fr)"
    and "side_effects (fst (parse_listenInterval doc fr)) = side_effects (fst fr)"
    and "store (fst (parse_listenInterval doc fr)) =
       (case store (fst fr) of (ssid, pass, ap_ssid, ap_pass, channel, clients, enabled, mode, interval) \<Rightarrow>
         (ssid, pass, ap_ssid, ap_pass, channel, clients, enabled, mode,
          (case doc_listenInterval doc of Some v \<Rightarrow> if 1 \<le> v \<and> v \<le> 10 then word_of_int v else interval
           | None \<Rightarrow> interval)))"
    and "fst (snd (parse_listenInterval doc fr)) =
       (fst (snd fr) \<or> store (fst (parse_listenInterval doc fr)) \<noteq> store (fst fr))"
    and "snd (snd (parse_listenInterval doc fr)) = snd (snd fr)"
    by (auto simp add: prims Let_def backstage_def side_effects_def store_def
          split: option.splits dest: listen_interval_roundtrip)
qed

lemma backstage_fields:
  assumes "backstage a = backstage b"
  shows "isPrimaryConnected a = isPrimaryConnected b"
    and "lastReconnectAttempt a = lastReconnectAttempt b"
    and "deviceConnected a = deviceConnected b"
    and "oldDeviceConnected a = oldDeviceConnected b"
    and "lastBLEStatusTime a = lastBLEStatusTime b"
    and "lastStatusTime a = lastStatusTime b"
    and "world a = world b"
    and "status_calls a = status_calls b"
    and "millis a = millis b"
proof -
  have "isPrimaryConnected (backstage a) = isPrimaryConnected (backstage b)"
    "lastReconnectAttempt (backstage a) = lastReconnectAttempt (backstage b)"
    "deviceConnected (backstage a) = deviceConnected (backstage b)"
    "oldDeviceConnected (backstage a) = oldDeviceConnected (backstage b)"
    "lastBLEStatusTime (backstage a) = lastBLEStatusTime (backstage b)"
    "lastStatusTime (backstage a) = lastStatusTime (backstage b)"
    "world (backstage a) = world (backstage b)"
    "status_calls (backstage a) = status_calls (backstage b)"
    "millis (backstage a) = millis (backstage b)"
    using assms by simp_all
  then show "isPrimaryConnected a = isPrimaryConnected b"
    and "lastReconnectAttempt a = lastReconnectAttempt b"
    and "deviceConnected a = deviceConnected b"
    and "oldDeviceConnected a = oldDeviceConnected b"
    and "lastBLEStatusTime a = lastBLEStatusTime b"
    and "lastStatusTime a = lastStatusTime b"
    and "world a = world b"
    and "status_calls a = status_calls b"
    and "millis a = millis b"
    by (simp_all add: backstage_def)
qed

declare parse_primary.simps [simp del] parse_repeater.simps [simp del]
  parse_channel.simps [simp del] parse_maxClients.simps [simp del]
  parse_powerSaving.simps [simp del] parse_powerMode.simps [simp del]
  parse_listenInterval.simps [simp del]

lemmas parse_block_obs =
  parse_primary_obs parse_repeater_obs parse_channel_obs parse_maxClients_obs
  parse_powerSaving_obs parse_powerMode_obs parse_listenInterval_obs

lemma parse_fields_backstage:
  "backstage (fst (parse_fields doc st)) = backstage st"
  "side_effects (fst (parse_fields doc st)) = side_effects st"
  by (simp_all add: parse_fields_def parse_block_obs)

lemma store_tuple:
  "store st = (primarySSID st, primaryPassword st, apSSID st, apPassword st, apChannel st,
     maxClients st, powerSavingEnabled st, powerSaveMode st, listenInterval st)"
  by (simp add: store_def)

lemma parse_fields_store:
  "store (fst (parse_fields doc st)) = spec_applyUpdate doc (store st)"
  by (simp add: parse_fields_def parse_block_obs spec_applyUpdate_def store_tuple [of st])

lemma parse_fields_configChanged:
  "fst (snd (parse_fields doc st)) =
     (store (fst (parse_fields doc st)) \<noteq> store st
      \<or> (case doc_powerMode doc of Some v \<Rightarrow> 0 \<le> v \<and> v \<le> 2 | None \<Rightarrow> False))"
  by (cases "doc_powerMode doc")
     (simp_all add: parse_fields_def parse_block_obs store_tuple [of st], blast+)

lemma parse_fields_wifiChanged:
  "snd (snd (parse_fields doc st)) =
     (primarySSID (fst (parse_fields doc st)) \<noteq> primarySSID st
      \<or> primaryPassword (fst (parse_fields doc st)) \<noteq> primaryPassword st)"
proof -
  have "snd (snd (parse_fields doc st)) =
      (fst (spec_applyUpdate doc (store st)) \<noteq> fst (store st)
       \<or> fst (snd (spec_applyUpdate doc (store st))) \<noteq> fst (snd (store st)))"
    by (simp add: parse_fields_def parse_block_obs spec_applyUpdate_def store_tuple [of st])
  then show ?thesis
    unfolding parse_fields_store [symmetric] by (simp add: store_def)
qed

lemma statusDoc_status_calls [simp]:
  "statusDoc status (st\<lparr>status_calls := n\<rparr>) = statusDoc status st"
  by (simp add: statusDoc_def statusDoc_assigned_def Let_def)

lemma updateBLEStatus_obs [simp]:
  "store (updateBLEStatus st) = store st"
  "deviceConnected (updateBLEStatus st) = deviceConnected st"
  "isPrimaryConnected (updateBLEStatus st) = isPrimaryConnected st"
  "lastReconnectAttempt (updateBLEStatus st) = lastReconnectAttempt st"
  "world (updateBLEStatus st) = world st"
  "millis (updateBLEStatus st) = millis st"
  "polls (updateBLEStatus st) = polls st"
  "side_effects (updateBLEStatus st) = side_effects st @
     (if deviceConnected st
      then [BLE_setValue (statusDoc (WiFi_status_at (world st) (status_calls st)) st), BLE_notify]
      else [])"
  by (simp_all add: updateBLEStatus_def Let_def prims store_def side_effects_def polls_def)

lemma applyPowerSavingSettings_obs [simp]:
  "store (applyPowerSavingSettings st) = store st"
  "deviceConnected (applyPowerSavingSettings st) = deviceConnected st"
  "isPrimaryConnected (applyPowerSavingSettings st) = isPrimaryConnected st"
  "lastReconnectAttempt (applyPowerSavingSettings st) = lastReconnectAttempt st"
  "world (applyPowerSavingSettings st) = world st"
  "millis (applyPowerSavingSettings st) = millis st"
  "status_calls (applyPowerSavingSettings st) = status_calls st"
  "polls (applyPowerSavingSettings st) = polls st"
  "side_effects (applyPowerSavingSettings st) = side_effects st @
     (if powerSavingEnabled st
      then [esp_wifi_set_ps (powerSaveMode st), esp_wifi_set_listen_interval (listenInterval st)]
      else [esp_wifi_set_ps WIFI_PS_NONE])"
  by (simp_all add: applyPowerSavingSettings_def Let_def prims store_def side_effects_def polls_def)

lemma emit_obs [simp]:
  "store (emit e st) = store st"
  "deviceConnected (emit e st) = deviceConnected st"
  "isPrimaryConnected (emit e st) = isPrimaryConnected st"
  "lastReconnectAttempt (emit e st) = lastReconnectAttempt st"
  "world (emit e st) = world st"
  "millis (emit e st) = millis st"
  "status_calls (emit e st) = status_calls st"
  "side_effects (emit e st) = side_effects st @ (if is_side_effect e then [e] else [])"
  by (simp_all add: emit_def store_def side_effects_def)

lemma store_fields:
  assumes "store a = store b"
  shows "primarySSID a = primarySSID b" and "primaryPassword a = primaryPassword b"
    and "apSSID a = apSSID b" and "apPassword a = apPassword b"
    and "apChannel a = apChannel b" and "maxClients a = maxClients b"
    and "powerSavingEnabled a = powerSavingEnabled b" and "powerSaveMode a = powerSaveMode b"
    and "listenInterval a = listenInterval b"
  using assms by (simp_all add: store_def)

lemma applySettings_obs:
  "store (applySettings reconnectWifi st) = store st"
  "deviceConnected (applySettings reconnectWifi st) = deviceConnected st"
  "world (applySettings reconnectWifi st) = world st"
  by (simp_all add: applySettings_def Let_def)

lemma applySettings_link:
  "isPrimaryConnected (applySettings False st) = isPrimaryConnected st"
  "lastReconnectAttempt (applySettings False st) = lastReconnectAttempt st"
  "millis (applySettings False st) = millis st"
  by (simp_all add: applySettings_def Let_def)

lemma applySettings_side_effects:
  "\<exists>payload. side_effects (applySettings reconnectWifi st) = side_effects st
     @ (if powerSavingEnabled st
        then [esp_wifi_set_ps (powerSaveMode st), esp_wifi_set_listen_interval (listenInterval st)]
        else [esp_wifi_set_ps WIFI_PS_NONE])
     @ [WiFi_softAPConfig apIP apIP apNetmask,
        WiFi_softAP (apSSID st) (apPassword st) (apChannel st) 0 (maxClients st)]
     @ (if reconnectWifi then [WiFi_disconnect, WiFi_begin (primarySSID st) (primaryPassword st)] else [])
     @ (if deviceConnected st then [BLE_setValue payload, BLE_notify] else [])"
proof -
  let ?st1 = "applyPowerSavingSettings st"
  have f: "apSSID ?st1 = apSSID st" "apPassword ?st1 = apPassword st" "apChannel ?st1 = apChannel st"
    "maxClients ?st1 = maxClients st" "primarySSID ?st1 = primarySSID st"
    "primaryPassword ?st1 = primaryPassword st"
    by (rule store_fields [of ?st1 st], simp)+
  show ?thesis
    by (cases reconnectWifi) (auto simp add: applySettings_def Let_def f store_fields [OF emit_obs(1)])
qed

lemmas parse_block_simps =
  parse_primary.simps parse_repeater.simps parse_channel.simps parse_maxClients.simps
  parse_powerSaving.simps parse_powerMode.simps parse_listenInterval.simps

lemma parseConfig_Inr:
  assumes "deserializeJson jsonString = Inr doc"
  shows "parseConfig deserializeJson jsonString st =
     (if fst (snd (parse_fields doc st))
      then applySettings (snd (snd (parse_fields doc st))) (fst (parse_fields doc st))
      else fst (parse_fields doc st))"
  using assms by (simp add: parseConfig_def split: prod.splits)

lemma parseConfig_store:
  assumes "deserializeJson jsonString = Inr doc"
  shows "store (parseConfig deserializeJson jsonString st) = spec_applyUpdate doc (store st)"
  using assms by (simp add: parseConfig_Inr [where doc = doc] applySettings_obs parse_fields_store)

lemma store_initial:
  "store (initial w) =
     (''Shivam5G'', [], ''Shivam5G_Repeater'', [], 7, 8, True, WIFI_PS_MIN_MODEM, 3)"
  by (simp add: store_def initial_def)

lemma parse_fields_drop_invalid:
  "parse_fields (drop_invalid doc) st = parse_fields doc st"
proof -
  have "parse_primary (drop_invalid doc) fr = parse_primary doc fr"
    "parse_repeater (drop_invalid doc) fr = parse_repeater doc fr"
    "parse_channel (drop_invalid doc) fr = parse_channel doc fr"
    "parse_maxClients (drop_invalid doc) fr = parse_maxClients doc fr"
    "parse_powerSaving (drop_invalid doc) fr = parse_powerSaving doc fr"
    "parse_powerMode (drop_invalid doc) fr = parse_powerMode doc fr"
    "parse_listenInterval (drop_invalid doc) fr = parse_listenInterval doc fr" for fr
  proof -
    obtain st configChanged wifiChanged where fr: "fr = (st, configChanged, wifiChanged)"
      by (cases fr)
    show "parse_primary (drop_invalid doc) fr = parse_primary doc fr"
      "parse_repeater (drop_invalid doc) fr = parse_repeater doc fr"
      "parse_channel (drop_invalid doc) fr = parse_channel doc fr"
      "parse_maxClients (drop_invalid doc) fr = parse_maxClients doc fr"
      "parse_powerSaving (drop_invalid doc) fr = parse_powerSaving doc fr"
      "parse_powerMode (drop_invalid doc) fr = parse_powerMode doc fr"
      "parse_listenInterval (drop_invalid doc) fr = parse_listenInterval doc fr"
      unfolding fr by (simp_all add: parse_block_simps drop_invalid_def split: option.splits)
  qed
  then show ?thesis
    by (simp add: parse_fields_def)
qed

text \<open>
  C5 (amended): \<^verbatim>\<open>parseConfig\<close> is given the written bytes up to the first zero byte
  (line 73), and whether they are an update is the verdict of \<^verbatim>\<open>deserializeJson\<close>. When
  it reports an error, \<^verbatim>\<open>parseConfig\<close> changes nothing: no field of the configuration
  store, no other global, no side effect. The state after it is the state before it with
  two lines appended to the serial log, the second being the text of the error. The same
  holds for the write callback \<^verbatim>\<open>onWrite\<close> that receives the payload from the
  characteristic, which logs one more line first.
\<close>

theorem malformed_payload_rejected:
  assumes "deserializeJson jsonString = Inl error"
  shows "parseConfig deserializeJson jsonString st =
           st\<lparr>trace := trace st @
             [Serial_print_ev (Str ''Failed to parse JSON: ''), Serial_println_ev (Str error)]\<rparr>
       \<and> (\<forall>val. val \<noteq> [] \<and> takeWhile (\<lambda>c. c \<noteq> CHR 0x00) val = jsonString \<longrightarrow>
             onWrite deserializeJson val st =
               st\<lparr>trace := trace st @
                 [Serial_println_ev (Str ''Received configuration update:''),
                  Serial_print_ev (Str ''Failed to parse JSON: ''), Serial_println_ev (Str error)]\<rparr>)"
  using assms by (auto simp add: parseConfig_def onWrite_def Let_def prims)

theorem malformed_payload_rejected_witness:
  "parseConfig (\<lambda>j. Inl ''InvalidInput'') ''{channel:'' (initial never_up) =
     (initial never_up)\<lparr>trace :=
       [Serial_print_ev (Str ''Failed to parse JSON: ''), Serial_println_ev (Str ''InvalidInput'')]\<rparr>
   \<and> onWrite (\<lambda>j. Inl ''InvalidInput'') ''{channel:'' (initial never_up) =
     (initial never_up)\<lparr>trace :=
       [Serial_println_ev (Str ''Received configuration update:''),
        Serial_print_ev (Str ''Failed to parse JSON: ''), Serial_println_ev (Str ''InvalidInput'')]\<rparr>"
proof -
  have t: "takeWhile (\<lambda>c. c \<noteq> CHR 0x00) ''{channel:'' = ''{channel:''" "trace (initial never_up) = []"
    by (simp_all add: initial_def)
  from malformed_payload_rejected [of "\<lambda>j. Inl ''InvalidInput''" "''{channel:''" "''InvalidInput''"
      "initial never_up", OF refl]
  have "parseConfig (\<lambda>j. Inl ''InvalidInput'') ''{channel:'' (initial never_up) =
      (initial never_up)\<lparr>trace := trace (initial never_up) @
        [Serial_print_ev (Str ''Failed to parse JSON: ''), Serial_println_ev (Str ''InvalidInput'')]\<rparr>"
    and "onWrite (\<lambda>j. Inl ''InvalidInput'') ''{channel:'' (initial never_up) =
      (initial never_up)\<lparr>trace := trace (initial never_up) @
        [Serial_println_ev (Str ''Received configuration update:''),
         Serial_print_ev (Str ''Failed to parse JSON: ''), Serial_println_ev (Str ''InvalidInput'')]\<rparr>"
    using t(1) by blast+
  then show ?thesis
    by (simp only: t(2) append_Nil)
qed

text \<open>
  C5 as stated fails: a written value that is not a JSON text is applied when the bytes
  before its first zero byte are one. With a peer connected and a parser that rejects the
  written value as a whole, the write of \<^verbatim>\<open>{"channel":5}\<close>, a zero byte and
  \<^verbatim>\<open>junk}\<close> moves the access point from channel 7 to channel 5.
\<close>

theorem truncated_write_applied:
  "only_channel_parser nul_write = Inl ''InvalidInput''
   \<and> apChannel with_peer = 7
   \<and> apChannel (onWrite only_channel_parser nul_write with_peer) = 5"
proof -
  have t: "takeWhile (\<lambda>c. c \<noteq> CHR 0x00) nul_write = channel_text" "nul_write \<noteq> []"
    "nul_write \<noteq> channel_text"
    by (simp_all add: nul_write_def channel_text_def)
  let ?st = "Serial_println (Str ''Received configuration update:'') with_peer"
  have "onWrite only_channel_parser nul_write with_peer = parseConfig only_channel_parser channel_text ?st"
    by (simp add: onWrite_def Let_def t)
  moreover have "store (parseConfig only_channel_parser channel_text ?st) =
      spec_applyUpdate channel_update (store ?st)"
    by (rule parseConfig_store) (simp add: only_channel_parser_def)
  moreover have "store ?st = store with_peer"
    by (simp add: Serial_println_def)
  ultimately have "store (onWrite only_channel_parser nul_write with_peer) =
      spec_applyUpdate channel_update (store with_peer)"
    by simp
  then have "apChannel (onWrite only_channel_parser nul_write with_peer) = 5"
    by (simp add: store_def spec_applyUpdate_def channel_update_def no_keys_def)
  moreover have "apChannel with_peer = 7"
    by (simp add: with_peer_def initial_def)
  moreover have "only_channel_parser nul_write = Inl ''InvalidInput''"
    by (simp add: only_channel_parser_def t)
  ultimately show ?thesis
    by simp
qed

text \<open>
  C3: for every document, the store after \<^verbatim>\<open>parseConfig\<close> is the store that the spec's
  partial-acceptance rule gives: every valid field is applied, every out-of-range field
  keeps its stored value, whatever the other fields are. An out-of-range field is dropped
  silently: the whole result (store, log and side effects) is the one of the same update
  without its out-of-range fields.
\<close>

theorem partial_acceptance:
  assumes "deserializeJson jsonString = Inr doc"
      and "deserializeJson' jsonString' = Inr (drop_invalid doc)"
  shows "store (parseConfig deserializeJson jsonString st) = spec_applyUpdate doc (store st)
       \<and> parseConfig deserializeJson jsonString st = parseConfig deserializeJson' jsonString' st"
proof
  show "store (parseConfig deserializeJson jsonString st) = spec_applyUpdate doc (store st)"
    using assms(1) by (rule parseConfig_store)
  show "parseConfig deserializeJson jsonString st = parseConfig deserializeJson' jsonString' st"
    using assms
    by (simp add: parseConfig_Inr [where doc = doc] parseConfig_Inr [where doc = "drop_invalid doc"]
          parse_fields_drop_invalid)
qed

theorem partial_acceptance_witness:
  "store (parseConfig (\<lambda>j. Inr bad_channel_update) [] (initial never_up)) =
     (''Shivam5G'', [], ''Annex'', ''s3cret'', 7, 5, True, WIFI_PS_MIN_MODEM, 4)
   \<and> parseConfig (\<lambda>j. Inr bad_channel_update) [] (initial never_up) =
     parseConfig (\<lambda>j. Inr (drop_invalid bad_channel_update)) [] (initial never_up)"
proof -
  have e: "spec_applyUpdate bad_channel_update (store (initial never_up)) =
      (''Shivam5G'', [], ''Annex'', ''s3cret'', 7, 5, True, WIFI_PS_MIN_MODEM, 4)"
    by (simp add: spec_applyUpdate_def store_initial bad_channel_update_def no_keys_def)
  show ?thesis
    using partial_acceptance [of "\<lambda>j. Inr bad_channel_update" "[]" bad_channel_update
      "\<lambda>j. Inr (drop_invalid bad_channel_update)" "[]" "initial never_up", OF refl refl]
    unfolding e .
qed

lemma parseConfig_fields:
  assumes "deserializeJson jsonString = Inr doc"
  shows "store (parseConfig deserializeJson jsonString st) = store (fst (parse_fields doc st))"
    and "deviceConnected (parseConfig deserializeJson jsonString st) = deviceConnected st"
    and "world (parseConfig deserializeJson jsonString st) = world st"
  using assms
  by (simp_all add: parseConfig_Inr [where doc = doc] applySettings_obs
        backstage_fields [OF parse_fields_backstage(1)])

lemma parseConfig_side_effects:
  fixes st st' :: state
  assumes "deserializeJson jsonString = Inr doc"
  defines "st' \<equiv> parseConfig deserializeJson jsonString st"
  shows "\<exists>payload. side_effects st' = side_effects st @
     (if fst (snd (parse_fields doc st)) then
        (if powerSavingEnabled st'
         then [esp_wifi_set_ps (powerSaveMode st'), esp_wifi_set_listen_interval (listenInterval st')]
         else [esp_wifi_set_ps WIFI_PS_NONE])
        @ [WiFi_softAPConfig apIP apIP apNetmask,
           WiFi_softAP (apSSID st') (apPassword st') (apChannel st') 0 (maxClients st')]
        @ (if primarySSID st' \<noteq> primarySSID st \<or> primaryPassword st' \<noteq> primaryPassword st
           then [WiFi_disconnect, WiFi_begin (primarySSID st') (primaryPassword st')] else [])
        @ (if deviceConnected st then [BLE_setValue payload, BLE_notify] else [])
      else [])"
proof -
  let ?st1 = "fst (parse_fields doc st)"
  have s: "store st' = store ?st1"
    unfolding st'_def using assms(1) by (rule parseConfig_fields)
  note f = store_fields [OF s]
  show ?thesis
  proof (cases "fst (snd (parse_fields doc st))")
    case True
    then have st': "st' = applySettings (snd (snd (parse_fields doc st))) ?st1"
      unfolding st'_def using assms(1) by (simp add: parseConfig_Inr [where doc = doc])
    obtain payload where "side_effects st' = side_effects ?st1
       @ (if powerSavingEnabled ?st1
          then [esp_wifi_set_ps (powerSaveMode ?st1), esp_wifi_set_listen_interval (listenInterval ?st1)]
          else [esp_wifi_set_ps WIFI_PS_NONE])
       @ [WiFi_softAPConfig apIP apIP apNetmask,
          WiFi_softAP (apSSID ?st1) (apPassword ?st1) (apChannel ?st1) 0 (maxClients ?st1)]
       @ (if snd (snd (parse_fields doc st))
          then [WiFi_disconnect, WiFi_begin (primarySSID ?st1) (primaryPassword ?st1)] else [])
       @ (if deviceConnected ?st1 then [BLE_setValue payload, BLE_notify] else [])"
      unfolding st' using applySettings_side_effects by blast
    then show ?thesis
      using True
      by (simp only: f [symmetric] parse_fields_backstage(2) parse_fields_wifiChanged
            backstage_fields(3) [OF parse_fields_backstage(1)]) auto
  next
    case False
    then have "st' = ?st1"
      unfolding st'_def using assms(1) by (simp add: parseConfig_Inr [where doc = doc])
    then show ?thesis
      using False by (simp add: parse_fields_backstage)
  qed
qed

lemma parse_fields_drop_unpaired:
  "parse_fields (drop_unpaired doc) st = parse_fields doc st"
proof -
  have "parse_primary (drop_unpaired doc) fr = parse_primary doc fr"
    "parse_repeater (drop_unpaired doc) fr = parse_repeater doc fr"
    "parse_channel (drop_unpaired doc) fr = parse_channel doc fr"
    "parse_maxClients (drop_unpaired doc) fr = parse_maxClients doc fr"
    "parse_powerSaving (drop_unpaired doc) fr = parse_powerSaving doc fr"
    "parse_powerMode (drop_unpaired doc) fr = parse_powerMode doc fr"
    "parse_listenInterval (drop_unpaired doc) fr = parse_listenInterval doc fr" for fr
  proof -
    obtain st configChanged wifiChanged where fr: "fr = (st, configChanged, wifiChanged)"
      by (cases fr)
    show "parse_primary (drop_unpaired doc) fr = parse_primary doc fr"
      "parse_repeater (drop_unpaired doc) fr = parse_repeater doc fr"
      "parse_channel (drop_unpaired doc) fr = parse_channel doc fr"
      "parse_maxClients (drop_unpaired doc) fr = parse_maxClients doc fr"
      "parse_powerSaving (drop_unpaired doc) fr = parse_powerSaving doc fr"
      "parse_powerMode (drop_unpaired doc) fr = parse_powerMode doc fr"
      "parse_listenInterval (drop_unpaired doc) fr = parse_listenInterval doc fr"
      unfolding fr by (simp_all add: parse_block_simps drop_unpaired_def split: option.splits)
  qed
  then show ?thesis
    by (simp add: parse_fields_def)
qed

lemma parseConfig_link:
  assumes "deserializeJson jsonString = Inr doc"
      and "primarySSID (parseConfig deserializeJson jsonString st) = primarySSID st"
      and "primaryPassword (parseConfig deserializeJson jsonString st) = primaryPassword st"
  shows "isPrimaryConnected (parseConfig deserializeJson jsonString st) = isPrimaryConnected st"
    and "lastReconnectAttempt (parseConfig deserializeJson jsonString st) = lastReconnectAttempt st"
    and "millis (parseConfig deserializeJson jsonString st) = millis st"
proof -
  let ?st1 = "fst (parse_fields doc st)"
  have "store (parseConfig deserializeJson jsonString st) = store ?st1"
    using assms(1) by (rule parseConfig_fields)
  from store_fields(1,2) [OF this] assms(2,3)
  have w: "\<not> snd (snd (parse_fields doc st))"
    by (simp add: parse_fields_wifiChanged)
  note b = backstage_fields [OF parse_fields_backstage(1), of doc st]
  show "isPrimaryConnected (parseConfig deserializeJson jsonString st) = isPrimaryConnected st"
    and "lastReconnectAttempt (parseConfig deserializeJson jsonString st) = lastReconnectAttempt st"
    and "millis (parseConfig deserializeJson jsonString st) = millis st"
    using assms(1) w by (simp_all add: parseConfig_Inr [where doc = doc] applySettings_link b)
qed

lemma callbacks_deviceConnected:
  "deviceConnected (onConnect st)"
  "\<not> deviceConnected (onDisconnect st)"
  "deviceConnected (onWrite deserializeJson val st) = deviceConnected st"
proof -
  show "deviceConnected (onConnect st)"
    by (simp add: onConnect_def Let_def Serial_println_def)
  show "\<not> deviceConnected (onDisconnect st)"
    by (simp add: onDisconnect_def Let_def Serial_println_def)
  show "deviceConnected (onWrite deserializeJson val st) = deviceConnected st"
  proof (cases "deserializeJson (takeWhile (\<lambda>c. c \<noteq> CHR 0x00) val)")
    case (Inl error)
    then show ?thesis
      by (simp add: onWrite_def Let_def parseConfig_def Serial_print_def Serial_println_def)
  next
    case (Inr doc)
    then show ?thesis
      by (simp add: onWrite_def Let_def parseConfig_fields(2) [where doc = doc] Serial_println_def)
  qed
qed

text \<open>
  C6: \<^verbatim>\<open>parseConfig\<close> runs in the write callback of a BLE peer (line 74, its only caller),
  and \<^verbatim>\<open>deviceConnected\<close> is set when the peer connects (line 55) and cleared only when
  it disconnects (line 61); no write and no tick changes it. In such a state, whenever the
  store changed, the side effects of \<^verbatim>\<open>parseConfig\<close> are, in this order and nothing else:
  the power-save policy (mode and listen interval when power saving is enabled, mode NONE
  otherwise), one configuration and one start of the access point with the values now in
  the store, one disconnect and one connect of the station exactly when the station
  credentials changed, and last, in every case, the status update, stored in the
  characteristic and notified.
\<close>

theorem side_effects_in_order:
  fixes st st' :: state
  assumes "deserializeJson jsonString = Inr doc" and "deviceConnected st"
  defines "st' \<equiv> parseConfig deserializeJson jsonString st"
  assumes "store st' \<noteq> store st"
  shows "\<exists>payload. side_effects st' = side_effects st
     @ (if powerSavingEnabled st'
        then [esp_wifi_set_ps (powerSaveMode st'), esp_wifi_set_listen_interval (listenInterval st')]
        else [esp_wifi_set_ps WIFI_PS_NONE])
     @ [WiFi_softAPConfig apIP apIP apNetmask,
        WiFi_softAP (apSSID st') (apPassword st') (apChannel st') 0 (maxClients st')]
     @ (if primarySSID st' \<noteq> primarySSID st \<or> primaryPassword st' \<noteq> primaryPassword st
        then [WiFi_disconnect, WiFi_begin (primarySSID st') (primaryPassword st')] else [])
     @ [BLE_setValue payload, BLE_notify]"
proof -
  have "store st' = store (fst (parse_fields doc st))"
    unfolding st'_def using assms(1) by (rule parseConfig_fields)
  with assms(4) have "fst (snd (parse_fields doc st))"
    by (simp add: parse_fields_configChanged)
  with parseConfig_side_effects [of deserializeJson jsonString doc st, OF assms(1)] assms(2)
  show ?thesis
    unfolding st'_def by simp
qed

theorem side_effects_in_order_witness:
  "\<exists>payload. side_effects (parseConfig (\<lambda>j. Inr new_station_update) [] with_peer) =
     [esp_wifi_set_ps WIFI_PS_MIN_MODEM, esp_wifi_set_listen_interval 3,
      WiFi_softAPConfig apIP apIP apNetmask, WiFi_softAP ''Shivam5G_Repeater'' [] 7 0 8,
      WiFi_disconnect, WiFi_begin ''Foo'' ''bar'',
      BLE_setValue payload, BLE_notify]"
proof -
  let ?st' = "parseConfig (\<lambda>j. Inr new_station_update) [] with_peer"
  have p: "store with_peer = (''Shivam5G'', [], ''Shivam5G_Repeater'', [], 7, 8, True, WIFI_PS_MIN_MODEM, 3)"
    "side_effects with_peer = []" "deviceConnected with_peer"
    "primarySSID with_peer = ''Shivam5G''" "primaryPassword with_peer = []"
    by (simp_all add: with_peer_def initial_def store_def side_effects_def)
  have "store ?st' = spec_applyUpdate new_station_update (store with_peer)"
    by (rule parseConfig_store) simp
  then have s: "store ?st' = (''Foo'', ''bar'', ''Shivam5G_Repeater'', [], 7, 8, True, WIFI_PS_MIN_MODEM, 3)"
    by (simp add: p spec_applyUpdate_def new_station_update_def no_keys_def)
  then have f: "primarySSID ?st' = ''Foo''" "primaryPassword ?st' = ''bar''"
    "apSSID ?st' = ''Shivam5G_Repeater''" "apPassword ?st' = []" "apChannel ?st' = 7"
    "maxClients ?st' = 8" "powerSavingEnabled ?st'" "powerSaveMode ?st' = WIFI_PS_MIN_MODEM"
    "listenInterval ?st' = 3"
    by (simp_all add: store_def)
  have ne: "store ?st' \<noteq> store with_peer"
    by (simp add: s p)
  show ?thesis
    using side_effects_in_order [of "\<lambda>j. Inr new_station_update" "[]" new_station_update with_peer] ne
    by (simp add: f p)
qed

lemma filter_station_calls:
  "filter is_station_call (trace st) = filter is_station_call (side_effects st)"
proof -
  have "(\<lambda>e. is_side_effect e \<and> is_station_call e) = is_station_call"
  proof
    fix e show "(is_side_effect e \<and> is_station_call e) = is_station_call e"
      by (cases e) simp_all
  qed
  then show ?thesis
    by (simp add: side_effects_def)
qed

lemma no_station_call:
  assumes "deserializeJson jsonString = Inr doc"
      and "primarySSID (parseConfig deserializeJson jsonString st) = primarySSID st"
      and "primaryPassword (parseConfig deserializeJson jsonString st) = primaryPassword st"
  shows "filter is_station_call (trace (parseConfig deserializeJson jsonString st)) =
         filter is_station_call (trace st)"
  using parseConfig_side_effects [of deserializeJson jsonString doc st, OF assms(1)] assms(2,3)
  by (auto simp add: filter_station_calls)

text \<open>
  C7: when the station credentials in the store are the same after an update as before it
  (the update changed only access-point, power-saving or other fields, or nothing),
  \<^verbatim>\<open>parseConfig\<close> makes no station call: no \<^verbatim>\<open>WiFi.disconnect\<close>, no
  \<^verbatim>\<open>WiFi.begin\<close>; the supervisor's connection flag and last-attempt timestamp are
  untouched and no time is spent waiting.
\<close>

theorem no_reconnect_without_credential_change:
  assumes "deserializeJson jsonString = Inr doc"
      and "primarySSID (parseConfig deserializeJson jsonString st) = primarySSID st"
      and "primaryPassword (parseConfig deserializeJson jsonString st) = primaryPassword st"
  shows "filter is_station_call (trace (parseConfig deserializeJson jsonString st)) =
           filter is_station_call (trace st)
       \<and> isPrimaryConnected (parseConfig deserializeJson jsonString st) = isPrimaryConnected st
       \<and> lastReconnectAttempt (parseConfig deserializeJson jsonString st) = lastReconnectAttempt st
       \<and> millis (parseConfig deserializeJson jsonString st) = millis st"
  using no_station_call [OF assms] parseConfig_link [OF assms] by simp

theorem no_reconnect_without_credential_change_witness:
  "filter is_station_call (trace (parseConfig (\<lambda>j. Inr bad_channel_update) [] (initial never_up))) = []
   \<and> \<not> isPrimaryConnected (parseConfig (\<lambda>j. Inr bad_channel_update) [] (initial never_up))
   \<and> lastReconnectAttempt (parseConfig (\<lambda>j. Inr bad_channel_update) [] (initial never_up)) = 0
   \<and> millis (parseConfig (\<lambda>j. Inr bad_channel_update) [] (initial never_up)) = 0"
proof -
  let ?st' = "parseConfig (\<lambda>j. Inr bad_channel_update) [] (initial never_up)"
  have "store ?st' = spec_applyUpdate bad_channel_update (store (initial never_up))"
    by (rule parseConfig_store) simp
  then have "primarySSID ?st' = primarySSID (initial never_up)"
    "primaryPassword ?st' = primaryPassword (initial never_up)"
    by (simp_all add: spec_applyUpdate_def bad_channel_update_def no_keys_def store_def)
  with no_reconnect_without_credential_change
    [of "\<lambda>j. Inr bad_channel_update" "[]" bad_channel_update "initial never_up"]
  show ?thesis
    by (simp add: initial_def)
qed

text \<open>
  C10: a credential key whose partner key is absent from the update is not read: the whole
  result of \<^verbatim>\<open>parseConfig\<close> (store, log, side effects) is the one of the same update
  without that key. With one key of the station pair missing, both stored station
  credentials and the station connection are left alone; with one key of the access-point
  pair missing, both stored access-point credentials are unchanged.
\<close>

theorem credentials_need_both_keys:
  assumes "deserializeJson jsonString = Inr doc"
      and "deserializeJson' jsonString' = Inr (drop_unpaired doc)"
  shows "parseConfig deserializeJson jsonString st = parseConfig deserializeJson' jsonString' st
       \<and> ((doc_primarySSID doc = None \<or> doc_primaryPass doc = None) \<longrightarrow>
            primarySSID (parseConfig deserializeJson jsonString st) = primarySSID st
            \<and> primaryPassword (parseConfig deserializeJson jsonString st) = primaryPassword st
            \<and> filter is_station_call (trace (parseConfig deserializeJson jsonString st)) =
                filter is_station_call (trace st))
       \<and> ((doc_apSSID doc = None \<or> doc_apPass doc = None) \<longrightarrow>
            apSSID (parseConfig deserializeJson jsonString st) = apSSID st
            \<and> apPassword (parseConfig deserializeJson jsonString st) = apPassword st)"
proof (intro conjI impI)
  let ?st' = "parseConfig deserializeJson jsonString st"
  show "?st' = parseConfig deserializeJson' jsonString' st"
    using assms
    by (simp add: parseConfig_Inr [where doc = doc] parseConfig_Inr [where doc = "drop_unpaired doc"]
          parse_fields_drop_unpaired)
  have s: "store ?st' = spec_applyUpdate doc (store st)"
    using assms(1) by (rule parseConfig_store)
  {
    assume "doc_primarySSID doc = None \<or> doc_primaryPass doc = None"
    with s show c: "primarySSID ?st' = primarySSID st" and d: "primaryPassword ?st' = primaryPassword st"
      by (auto simp add: spec_applyUpdate_def store_def split: option.splits)
    show "filter is_station_call (trace ?st') = filter is_station_call (trace st)"
      using assms(1) c d by (rule no_station_call)
  }
  {
    assume "doc_apSSID doc = None \<or> doc_apPass doc = None"
    with s show "apSSID ?st' = apSSID st" and "apPassword ?st' = apPassword st"
      by (auto simp add: spec_applyUpdate_def store_def split: option.splits)
  }
qed

theorem credentials_need_both_keys_witness:
  "parseConfig (\<lambda>j. Inr lone_keys_update) [] (initial never_up) =
     parseConfig (\<lambda>j. Inr (drop_unpaired lone_keys_update)) [] (initial never_up)
   \<and> primarySSID (parseConfig (\<lambda>j. Inr lone_keys_update) [] (initial never_up)) = ''Shivam5G''
   \<and> primaryPassword (parseConfig (\<lambda>j. Inr lone_keys_update) [] (initial never_up)) = []
   \<and> filter is_station_call (trace (parseConfig (\<lambda>j. Inr lone_keys_update) [] (initial never_up))) = []
   \<and> apSSID (parseConfig (\<lambda>j. Inr lone_keys_update) [] (initial never_up)) = ''Shivam5G_Repeater''
   \<and> apPassword (parseConfig (\<lambda>j. Inr lone_keys_update) [] (initial never_up)) = []"
proof -
  have k: "doc_primaryPass lone_keys_update = None" "doc_apSSID lone_keys_update = None"
    by (simp_all add: lone_keys_update_def no_keys_def)
  have i: "primarySSID (initial never_up) = ''Shivam5G''" "primaryPassword (initial never_up) = []"
    "apSSID (initial never_up) = ''Shivam5G_Repeater''" "apPassword (initial never_up) = []"
    "trace (initial never_up) = []"
    by (simp_all add: initial_def)
  show ?thesis
    using credentials_need_both_keys [of "\<lambda>j. Inr lone_keys_update" "[]" lone_keys_update
      "\<lambda>j. Inr (drop_unpaired lone_keys_update)" "[]" "initial never_up", OF refl refl]
    unfolding k i filter.simps(1) by blast
qed

subsection \<open>Store invariants and the status payload\<close>

lemma word16_range:
  assumes "1 \<le> v" and "v \<le> 10"
  shows "1 \<le> (word_of_int v :: 16 word) \<and> (word_of_int v :: 16 word) \<le> 10"
proof -
  from assms have "v = 1 \<or> v = 2 \<or> v = 3 \<or> v = 4 \<or> v = 5 \<or> v = 6 \<or> v = 7 \<or> v = 8 \<or> v = 9 \<or> v = 10"
    by arith
  then show ?thesis
    by (elim disjE) simp_all
qed

lemma word8_mode:
  assumes "0 \<le> v" and "v \<le> 2"
  shows "(word_of_int v :: 8 word) = WIFI_PS_NONE \<or> (word_of_int v :: 8 word) = WIFI_PS_MIN_MODEM
       \<or> (word_of_int v :: 8 word) = WIFI_PS_MAX_MODEM"
proof -
  from assms have "v = 0 \<or> v = 1 \<or> v = 2" by arith
  then show ?thesis
    by (elim disjE) (simp_all add: WIFI_PS_NONE_def WIFI_PS_MIN_MODEM_def WIFI_PS_MAX_MODEM_def)
qed

lemma store_inv_cong:
  assumes "store a = store b"
  shows "store_inv a = store_inv b"
  using store_fields [OF assms] by (simp add: store_inv_def)

lemma store_inv_spec:
  assumes "store a = spec_applyUpdate doc (store b)" and "store_inv b"
  shows "store_inv a"
proof -
  from assms(1) have f: "apChannel a =
      (case doc_channel doc of Some v \<Rightarrow> if 1 \<le> v \<and> v \<le> 13 then v else apChannel b | None \<Rightarrow> apChannel b)"
    "maxClients a =
      (case doc_maxClients doc of Some v \<Rightarrow> if 1 \<le> v \<and> v \<le> 10 then v else maxClients b | None \<Rightarrow> maxClients b)"
    "powerSaveMode a =
      (case doc_powerMode doc of Some v \<Rightarrow> if 0 \<le> v \<and> v \<le> 2 then word_of_int v else powerSaveMode b
       | None \<Rightarrow> powerSaveMode b)"
    "listenInterval a =
      (case doc_listenInterval doc of Some v \<Rightarrow> if 1 \<le> v \<and> v \<le> 10 then word_of_int v else listenInterval b
       | None \<Rightarrow> listenInterval b)"
    by (simp_all add: store_def spec_applyUpdate_def)
  have "1 \<le> apChannel a \<and> apChannel a \<le> 13"
    using assms(2) unfolding f by (simp add: store_inv_def split: option.splits)
  moreover have "1 \<le> maxClients a \<and> maxClients a \<le> 10"
    using assms(2) unfolding f by (simp add: store_inv_def split: option.splits)
  moreover have "1 \<le> listenInterval a \<and> listenInterval a \<le> 10"
    using assms(2) word16_range unfolding f by (simp add: store_inv_def split: option.splits)
  moreover have "powerSaveMode a = WIFI_PS_NONE \<or> powerSaveMode a = WIFI_PS_MIN_MODEM
       \<or> powerSaveMode a = WIFI_PS_MAX_MODEM"
    using assms(2) word8_mode unfolding f by (simp add: store_inv_def split: option.splits)
  ultimately show ?thesis
    by (simp add: store_inv_def)
qed

lemma parseConfig_store_inv:
  assumes "store_inv st"
  shows "store_inv (parseConfig deserializeJson jsonString st)"
proof (cases "deserializeJson jsonString")
  case (Inl error)
  then have "store (parseConfig deserializeJson jsonString st) = store st"
    by (simp add: parseConfig_def Serial_print_def Serial_println_def)
  from store_inv_cong [OF this] assms show ?thesis
    by simp
next
  case (Inr doc)
  then have "store (parseConfig deserializeJson jsonString st) = spec_applyUpdate doc (store st)"
    by (rule parseConfig_store)
  then show ?thesis
    using assms by (rule store_inv_spec)
qed

lemma initial_store_inv: "store_inv (initial w)"
  by (simp add: store_inv_def initial_def WIFI_PS_MIN_MODEM_def)

lemma updates_store_inv:
  "store_inv st \<Longrightarrow> store_inv (foldl (\<lambda>s j. parseConfig deserializeJson j s) st js)"
  by (induction js arbitrary: st) (simp_all add: parseConfig_store_inv)

lemma out_of_range_kept:
  assumes "deserializeJson jsonString = Inr doc"
  shows "doc_channel doc = Some v \<Longrightarrow> v < 1 \<or> 13 < v \<Longrightarrow>
           apChannel (parseConfig deserializeJson jsonString st) = apChannel st"
    and "doc_maxClients doc = Some v \<Longrightarrow> v < 1 \<or> 10 < v \<Longrightarrow>
           maxClients (parseConfig deserializeJson jsonString st) = maxClients st"
  using parseConfig_store [of deserializeJson jsonString doc st, OF assms]
  by (auto simp add: store_def spec_applyUpdate_def)

text \<open>
  C4: starting from the defaults, after any sequence of payloads given to \<^verbatim>\<open>parseConfig\<close>
  (well-formed or not), the channel is in 1..13, maxClients in 1..10, listenInterval in
  1..10 and the power-save mode is one of the three enumerators; the credentials are strings
  throughout. A channel outside 1..13 and a maxClients outside 1..10 leave the stored value
  as it was, whatever else the update holds.
\<close>

theorem store_invariants:
  "store_inv (foldl (\<lambda>s j. parseConfig deserializeJson j s) (initial w) js)
   \<and> (\<forall>j doc v st. deserializeJson j = Inr doc \<and> doc_channel doc = Some v \<and> (v < 1 \<or> 13 < v) \<longrightarrow>
          apChannel (parseConfig deserializeJson j st) = apChannel st)
   \<and> (\<forall>j doc v st. deserializeJson j = Inr doc \<and> doc_maxClients doc = Some v \<and> (v < 1 \<or> 10 < v) \<longrightarrow>
          maxClients (parseConfig deserializeJson j st) = maxClients st)"
  using updates_store_inv [OF initial_store_inv] out_of_range_kept by blast

theorem store_invariants_witness:
  "store_inv (foldl (\<lambda>s j. parseConfig (\<lambda>j. Inr bad_channel_update) j s) (initial never_up) [[], []])
   \<and> apChannel (parseConfig (\<lambda>j. Inr bad_channel_update) [] (initial never_up)) = 7"
proof -
  have "doc_channel bad_channel_update = Some 99" "apChannel (initial never_up) = 7"
    by (simp_all add: bad_channel_update_def no_keys_def initial_def)
  with store_invariants [of "\<lambda>j. Inr bad_channel_update" never_up "[[], []]"]
  show ?thesis
    by auto
qed

lemma prim_store [simp]:
  "store (Serial_print p st) = store st"
  "store (Serial_println p st) = store st"
  "store (delay ms st) = store st"
  "store (snd (WiFi_status st)) = store st"
  "store (st\<lparr>isPrimaryConnected := b\<rparr>) = store st"
  "store (st\<lparr>deviceConnected := b\<rparr>) = store st"
  "store (st\<lparr>oldDeviceConnected := b\<rparr>) = store st"
  "store (st\<lparr>lastBLEStatusTime := t\<rparr>) = store st"
  "store (st\<lparr>lastStatusTime := t\<rparr>) = store st"
  "store (st\<lparr>world := w, millis := t\<rparr>) = store st"
  by (simp_all add: prims store_def)

lemma keep_Let:
  assumes "store a = c" and "\<And>x. store x = c \<Longrightarrow> store (f x) = c"
  shows "store (Let a f) = c"
  using assms by simp

lemma keep_if:
  assumes "store a = c" and "store b = c"
  shows "store (if p then a else b) = c"
  using assms by simp

lemma keep_status:
  assumes "store s = c" and "\<And>x y. store y = c \<Longrightarrow> store (g x y) = c"
  shows "store (let (x, y) = WiFi_status s in g x y) = c"
  using assms by (simp add: WiFi_status_def store_def split: prod.splits)

lemma printStatus_store [simp]: "store (printStatus st) = store st"
  unfolding printStatus_def by (intro keep_Let keep_if keep_status) (simp_all add: Let_def)

lemma loop_store: "store (loop st) = store st"
proof -
  obtain status st1 where w: "WiFi_status st = (status, st1)"
    by force
  then have s1: "store st1 = store st"
    by (auto simp add: WiFi_status_def store_def)
  define st2 where "st2 =
     (if status \<noteq> WL_CONNECTED then
        (if \<not> isPrimaryConnected st1 \<or> millis st1 - lastReconnectAttempt st1 > reconnectInterval
         then connectToPrimaryWiFi
                (Serial_println (Str ''Connection to primary WiFi lost. Attempting to reconnect...'')
                  (st1\<lparr>isPrimaryConnected := False\<rparr>))
         else st1)
      else if \<not> isPrimaryConnected st1 then
        updateBLEStatus
          (printWiFiStatus
            (Serial_println (Str ''Connection to primary WiFi established!'')
              (st1\<lparr>isPrimaryConnected := True\<rparr>)))
      else st1)"
  define st3 where "st3 =
     (if deviceConnected st2 then
        (if millis st2 - lastBLEStatusTime st2 > 5000
         then updateBLEStatus (st2\<lparr>lastBLEStatusTime := millis st2\<rparr>)
         else st2)
      else st2)"
  define st4 where "st4 =
     (if deviceConnected st3 \<noteq> oldDeviceConnected st3
      then st3\<lparr>oldDeviceConnected := deviceConnected st3\<rparr>
      else st3)"
  define st5 where "st5 =
     (if millis st4 - lastStatusTime st4 > 60000
      then printStatus (st4\<lparr>lastStatusTime := millis st4\<rparr>)
      else st4)"
  have "loop st = delay 100 st5"
    unfolding loop_def w st5_def st4_def st3_def st2_def by (simp only: Let_def prod.case)
  moreover have "store st2 = store st1"
    by (simp add: st2_def)
  moreover have "store st3 = store st2"
    by (simp add: st3_def)
  moreover have "store st4 = store st3"
    by (simp add: st4_def)
  moreover have "store st5 = store st4"
    by (simp add: st5_def)
  ultimately show ?thesis
    by (simp add: s1)
qed

lemma callbacks_store:
  "store (onConnect st) = store st"
  "store (onDisconnect st) = store st"
  by (simp_all add: onConnect_def onDisconnect_def Let_def)

lemma onWrite_store_inv:
  assumes "store_inv st"
  shows "store_inv (onWrite deserializeJson val st)"
proof -
  have "store_inv (Serial_println (Str ''Received configuration update:'') st)"
    using assms store_inv_cong [OF prim_store(2)] by simp
  then show ?thesis
    using assms by (simp add: onWrite_def Let_def parseConfig_store_inv)
qed

lemma reachable_store_inv:
  assumes "reachable deserializeJson st"
  shows "store_inv st"
  using assms
proof (induction rule: reachable.induct)
  case (boot w)
  show ?case by (rule initial_store_inv)
next
  case (setup_connect st)
  with store_inv_cong [OF connect_keeps(1)] show ?case by simp
next
  case (setup_power st)
  with store_inv_cong [OF applyPowerSavingSettings_obs(1)] show ?case by simp
next
  case (tick st)
  with store_inv_cong [OF loop_store] show ?case by simp
next
  case (ble_connect st)
  with store_inv_cong [OF callbacks_store(1)] show ?case by simp
next
  case (ble_disconnect st)
  with store_inv_cong [OF callbacks_store(2)] show ?case by simp
next
  case (ble_write st val)
  then show ?case by (simp add: onWrite_store_inv)
next
  case (elapse st w t)
  with store_inv_cong [OF prim_store(10)] show ?case by simp
qed

lemma statusDoc_assigned_keys:
  assumes "powerSaveMode st = WIFI_PS_NONE \<or> powerSaveMode st = WIFI_PS_MIN_MODEM
       \<or> powerSaveMode st = WIFI_PS_MAX_MODEM"
  shows "map fst (statusDoc_assigned status st) = status_keys"
  using assms by (auto simp add: statusDoc_assigned_def status_keys_def Let_def)

lemma onWrite_fields:
  assumes "val \<noteq> []" and "deserializeJson (takeWhile (\<lambda>c. c \<noteq> CHR 0x00) val) = Inr doc"
  shows "store (onWrite deserializeJson val st) = spec_applyUpdate doc (store st)"
    and "world (onWrite deserializeJson val st) = world st"
  using assms
  by (simp_all add: onWrite_def Let_def parseConfig_store [where doc = doc]
        parseConfig_fields(3) [where doc = doc] Serial_println_def)




subsection \<open>The supervisor tick and repeated updates\<close>

lemma obs_Let:
  assumes "obs a = c" and "\<And>x. obs x = c \<Longrightarrow> obs (f x) = c"
  shows "obs (Let a f) = c"
  using assms by simp

lemma obs_if:
  assumes "obs a = c" and "obs b = c"
  shows "obs (if p then a else b) = c"
  using assms by simp

lemma station_calls_status:
  assumes "station_calls s = c" and "\<And>x y. station_calls y = c \<Longrightarrow> station_calls (g x y) = c"
  shows "station_calls (let (x, y) = WiFi_status s in g x y) = c"
  using assms by (simp add: WiFi_status_def station_calls_def split: prod.splits)

lemma prim_station_calls [simp]:
  "station_calls (Serial_print p st) = station_calls st"
  "station_calls (Serial_println p st) = station_calls st"
  "station_calls (delay ms st) = station_calls st"
  "station_calls (snd (WiFi_status st)) = station_calls st"
  "station_calls (st\<lparr>isPrimaryConnected := b\<rparr>) = station_calls st"
  "station_calls (st\<lparr>oldDeviceConnected := b\<rparr>) = station_calls st"
  "station_calls (st\<lparr>lastBLEStatusTime := t\<rparr>) = station_calls st"
  "station_calls (st\<lparr>lastStatusTime := t\<rparr>) = station_calls st"
  by (simp_all add: prims station_calls_def)

lemma reporters_station_calls [simp]:
  "station_calls (printWiFiStatus st) = station_calls st"
  "station_calls (updateBLEStatus st) = station_calls st"
  "station_calls (printStatus st) = station_calls st"
proof -
  show "station_calls (printWiFiStatus st) = station_calls st"
    by (simp add: station_calls_def filter_station_calls)
  show "station_calls (updateBLEStatus st) = station_calls st"
    by (simp add: station_calls_def filter_station_calls)
  show "station_calls (printStatus st) = station_calls st"
    unfolding printStatus_def
    by (intro obs_Let [of station_calls] obs_if [of station_calls] station_calls_status)
       (simp_all add: Let_def)
qed

lemma connect_station_calls [simp]:
  "station_calls (connectToPrimaryWiFi st) =
     station_calls st @ [WiFi_disconnect, WiFi_begin (primarySSID st) (primaryPassword st)]"
  by (simp add: station_calls_def filter_station_calls)

lemma loop_station_calls:
  "station_calls (loop st) = station_calls st @
     (if WiFi_status_at (world st) (status_calls st) \<noteq> WL_CONNECTED
         \<and> (\<not> isPrimaryConnected st \<or> millis st - lastReconnectAttempt st > reconnectInterval)
      then [WiFi_disconnect, WiFi_begin (primarySSID st) (primaryPassword st)]
      else [])"
proof -
  obtain status st1 where w: "WiFi_status st = (status, st1)"
    by force
  then have s1: "station_calls st1 = station_calls st" "status = WiFi_status_at (world st) (status_calls st)"
    "isPrimaryConnected st1 = isPrimaryConnected st" "millis st1 = millis st"
    "lastReconnectAttempt st1 = lastReconnectAttempt st"
    "primarySSID st1 = primarySSID st" "primaryPassword st1 = primaryPassword st"
    by (auto simp add: WiFi_status_def station_calls_def)
  define st2 where "st2 =
     (if status \<noteq> WL_CONNECTED then
        (if \<not> isPrimaryConnected st1 \<or> millis st1 - lastReconnectAttempt st1 > reconnectInterval
         then connectToPrimaryWiFi
                (Serial_println (Str ''Connection to primary WiFi lost. Attempting to reconnect...'')
                  (st1\<lparr>isPrimaryConnected := False\<rparr>))
         else st1)
      else if \<not> isPrimaryConnected st1 then
        updateBLEStatus
          (printWiFiStatus
            (Serial_println (Str ''Connection to primary WiFi established!'')
              (st1\<lparr>isPrimaryConnected := True\<rparr>)))
      else st1)"
  define st3 where "st3 =
     (if deviceConnected st2 then
        (if millis st2 - lastBLEStatusTime st2 > 5000
         then updateBLEStatus (st2\<lparr>lastBLEStatusTime := millis st2\<rparr>)
         else st2)
      else st2)"
  define st4 where "st4 =
     (if deviceConnected st3 \<noteq> oldDeviceConnected st3
      then st3\<lparr>oldDeviceConnected := deviceConnected st3\<rparr>
      else st3)"
  define st5 where "st5 =
     (if millis st4 - lastStatusTime st4 > 60000
      then printStatus (st4\<lparr>lastStatusTime := millis st4\<rparr>)
      else st4)"
  have "loop st = delay 100 st5"
    unfolding loop_def w st5_def st4_def st3_def st2_def by (simp only: Let_def prod.case)
  moreover have "station_calls st2 = station_calls st1 @
     (if status \<noteq> WL_CONNECTED
         \<and> (\<not> isPrimaryConnected st1 \<or> millis st1 - lastReconnectAttempt st1 > reconnectInterval)
      then [WiFi_disconnect, WiFi_begin (primarySSID st1) (primaryPassword st1)]
      else [])"
    by (simp add: st2_def store_fields(1,2) [OF prim_store(2)] store_fields(1,2) [OF prim_store(5)])
  moreover have "station_calls st3 = station_calls st2"
    by (simp add: st3_def)
  moreover have "station_calls st4 = station_calls st3"
    by (simp add: st4_def)
  moreover have "station_calls st5 = station_calls st4"
    by (simp add: st5_def)
  ultimately show ?thesis
    by (simp add: s1)
qed

lemma deviceConnected_status:
  assumes "deviceConnected s = c" and "\<And>x y. deviceConnected y = c \<Longrightarrow> deviceConnected (g x y) = c"
  shows "deviceConnected (let (x, y) = WiFi_status s in g x y) = c"
  using assms by (simp add: WiFi_status_def split: prod.splits)

lemma printStatus_deviceConnected: "deviceConnected (printStatus st) = deviceConnected st"
  unfolding printStatus_def
  by (intro obs_Let [of deviceConnected] obs_if [of deviceConnected] deviceConnected_status)
     (simp_all add: Let_def Serial_print_def Serial_println_def)

lemma loop_deviceConnected: "deviceConnected (loop st) = deviceConnected st"
  unfolding loop_def
  by (intro obs_Let [of deviceConnected] obs_if [of deviceConnected] deviceConnected_status)
     (simp_all add: printStatus_deviceConnected Serial_print_def Serial_println_def delay_def)

text \<open>
  C1 fails on the code: a tick that finds the link down and \<^verbatim>\<open>isPrimaryConnected\<close> false
  starts a connection attempt whatever the time since the last one (line 206; the interval
  is only compared when the flag is still true). Here the attempt made at start-up gives up,
  which leaves the flag false and the timestamp at the current time, and the tick that
  follows, 0 ms later, tears the station down and connects again.
\<close>

theorem backoff_not_respected:
  "\<not> isPrimaryConnected (connectToPrimaryWiFi (initial never_up))
   \<and> millis (connectToPrimaryWiFi (initial never_up))
       - lastReconnectAttempt (connectToPrimaryWiFi (initial never_up)) = 0
   \<and> station_calls (loop (connectToPrimaryWiFi (initial never_up))) =
       station_calls (connectToPrimaryWiFi (initial never_up))
         @ [WiFi_disconnect, WiFi_begin ''Shivam5G'' []]"
proof -
  let ?s1 = "connectToPrimaryWiFi (initial never_up)"
  have n: "\<forall>k. WiFi_status_at (world (initial never_up)) k \<noteq> WL_CONNECTED"
    by (simp add: initial_def never_up_def)
  have a: "\<not> isPrimaryConnected ?s1"
    using n by (rule connect_never_connected)
  have b: "millis ?s1 - lastReconnectAttempt ?s1 = 0"
    by (simp add: connect_link)
  have "store ?s1 = store (initial never_up)"
    by simp
  from store_fields(1,2) [OF this]
  have c: "primarySSID ?s1 = ''Shivam5G''" "primaryPassword ?s1 = []"
    by (simp_all add: initial_def)
  have "WiFi_status_at (world ?s1) (status_calls ?s1) \<noteq> WL_CONNECTED"
    using n by simp
  then have "station_calls (loop ?s1) = station_calls ?s1 @ [WiFi_disconnect, WiFi_begin ''Shivam5G'' []]"
    using a by (simp add: loop_station_calls c)
  with a b show ?thesis
    by simp
qed

theorem backoff_not_respected_witness:
  "station_calls (loop (connectToPrimaryWiFi (initial never_up))) =
     [WiFi_disconnect, WiFi_begin ''Shivam5G'' [], WiFi_disconnect, WiFi_begin ''Shivam5G'' []]"
proof -
  have "station_calls (initial never_up) = []" "primarySSID (initial never_up) = ''Shivam5G''"
    "primaryPassword (initial never_up) = []"
    by (simp_all add: station_calls_def initial_def)
  then have "station_calls (connectToPrimaryWiFi (initial never_up)) =
      [WiFi_disconnect, WiFi_begin ''Shivam5G'' []]"
    by simp
  with backoff_not_respected show ?thesis
    by simp
qed

lemma block_unchanged:
  "\<not> fst (snd (parse_primary doc fr)) \<Longrightarrow> parse_primary doc fr = fr"
  "\<not> fst (snd (parse_repeater doc fr)) \<Longrightarrow> parse_repeater doc fr = fr"
  "\<not> fst (snd (parse_channel doc fr)) \<Longrightarrow> parse_channel doc fr = fr"
  "\<not> fst (snd (parse_maxClients doc fr)) \<Longrightarrow> parse_maxClients doc fr = fr"
  "\<not> fst (snd (parse_powerSaving doc fr)) \<Longrightarrow> parse_powerSaving doc fr = fr"
  "\<not> fst (snd (parse_powerMode doc fr)) \<Longrightarrow> parse_powerMode doc fr = fr"
  "\<not> fst (snd (parse_listenInterval doc fr)) \<Longrightarrow> parse_listenInterval doc fr = fr"
proof -
  obtain st configChanged wifiChanged where fr: "fr = (st, configChanged, wifiChanged)"
    by (cases fr)
  show "\<not> fst (snd (parse_primary doc fr)) \<Longrightarrow> parse_primary doc fr = fr"
    "\<not> fst (snd (parse_repeater doc fr)) \<Longrightarrow> parse_repeater doc fr = fr"
    "\<not> fst (snd (parse_channel doc fr)) \<Longrightarrow> parse_channel doc fr = fr"
    "\<not> fst (snd (parse_maxClients doc fr)) \<Longrightarrow> parse_maxClients doc fr = fr"
    "\<not> fst (snd (parse_powerSaving doc fr)) \<Longrightarrow> parse_powerSaving doc fr = fr"
    "\<not> fst (snd (parse_powerMode doc fr)) \<Longrightarrow> parse_powerMode doc fr = fr"
    "\<not> fst (snd (parse_listenInterval doc fr)) \<Longrightarrow> parse_listenInterval doc fr = fr"
    unfolding fr by (auto simp add: parse_block_simps Let_def split: option.splits if_splits)
qed

lemma flag_kept:
  assumes "\<not> fst (snd x)" and "x = fr"
  shows "\<not> fst (snd fr)"
  using assms by simp

lemma parse_fields_unchanged:
  assumes "\<not> fst (snd (parse_fields doc st))"
  shows "parse_fields doc st = (st, False, False)"
proof -
  define f1 where "f1 = parse_primary doc (st, False, False)"
  define f2 where "f2 = parse_repeater doc f1"
  define f3 where "f3 = parse_channel doc f2"
  define f4 where "f4 = parse_maxClients doc f3"
  define f5 where "f5 = parse_powerSaving doc f4"
  define f6 where "f6 = parse_powerMode doc f5"
  have p: "parse_fields doc st = parse_listenInterval doc f6"
    by (simp add: parse_fields_def f1_def f2_def f3_def f4_def f5_def f6_def)
  have c7: "\<not> fst (snd (parse_listenInterval doc f6))"
    using assms unfolding p .
  then have e7: "parse_listenInterval doc f6 = f6"
    by (rule block_unchanged)
  have "\<not> fst (snd f6)"
    using c7 e7 by (rule flag_kept)
  then have c6: "\<not> fst (snd (parse_powerMode doc f5))"
    unfolding f6_def .
  then have e6: "f6 = f5"
    unfolding f6_def by (rule block_unchanged)
  have "\<not> fst (snd f5)"
    using c6 block_unchanged(6) [OF c6] by (rule flag_kept)
  then have c5: "\<not> fst (snd (parse_powerSaving doc f4))"
    unfolding f5_def .
  then have e5: "f5 = f4"
    unfolding f5_def by (rule block_unchanged)
  have "\<not> fst (snd f4)"
    using c5 block_unchanged(5) [OF c5] by (rule flag_kept)
  then have c4: "\<not> fst (snd (parse_maxClients doc f3))"
    unfolding f4_def .
  then have e4: "f4 = f3"
    unfolding f4_def by (rule block_unchanged)
  have "\<not> fst (snd f3)"
    using c4 block_unchanged(4) [OF c4] by (rule flag_kept)
  then have c3: "\<not> fst (snd (parse_channel doc f2))"
    unfolding f3_def .
  then have e3: "f3 = f2"
    unfolding f3_def by (rule block_unchanged)
  have "\<not> fst (snd f2)"
    using c3 block_unchanged(3) [OF c3] by (rule flag_kept)
  then have c2: "\<not> fst (snd (parse_repeater doc f1))"
    unfolding f2_def .
  then have e2: "f2 = f1"
    unfolding f2_def by (rule block_unchanged)
  have "\<not> fst (snd f1)"
    using c2 block_unchanged(2) [OF c2] by (rule flag_kept)
  then have c1: "\<not> fst (snd (parse_primary doc (st, False, False)))"
    unfolding f1_def .
  then have e1: "f1 = (st, False, False)"
    unfolding f1_def by (rule block_unchanged)
  have "parse_fields doc st = f6"
    using p e7 by (rule trans)
  then show ?thesis
    by (simp only: e6 e5 e4 e3 e2 e1)
qed

lemma spec_applyUpdate_idem:
  "spec_applyUpdate doc (spec_applyUpdate doc c) = spec_applyUpdate doc c"
proof -
  obtain ssid pass ap_ssid ap_pass channel clients rest
    where "c = (ssid, pass, ap_ssid, ap_pass, channel, clients, rest)"
    by (cases c rule: prod_cases7)
  moreover obtain enabled mode interval where "rest = (enabled, mode, interval)"
    by (cases rest rule: prod_cases3)
  ultimately show ?thesis
    by (simp add: spec_applyUpdate_def split: option.splits)
qed

text \<open>
  The other blocks do compare: an update with no valid \<^verbatim>\<open>powerMode\<close> key, applied a second
  time, leaves the whole state as the first application left it (no log line, no side
  effect).
\<close>

lemma repeat_without_powerMode:
  assumes "deserializeJson jsonString = Inr doc"
      and "case doc_powerMode doc of Some v \<Rightarrow> v < 0 \<or> 2 < v | None \<Rightarrow> True"
  shows "parseConfig deserializeJson jsonString (parseConfig deserializeJson jsonString st) =
         parseConfig deserializeJson jsonString st"
proof -
  let ?st1 = "parseConfig deserializeJson jsonString st"
  have "store ?st1 = spec_applyUpdate doc (store st)"
    using assms(1) by (rule parseConfig_store)
  then have "store (fst (parse_fields doc ?st1)) = store ?st1"
    by (simp add: parse_fields_store spec_applyUpdate_idem)
  moreover have "\<not> (case doc_powerMode doc of Some v \<Rightarrow> 0 \<le> v \<and> v \<le> 2 | None \<Rightarrow> False)"
    using assms(2) by (auto split: option.splits)
  ultimately have "\<not> fst (snd (parse_fields doc ?st1))"
    by (simp add: parse_fields_configChanged)
  then have "parse_fields doc ?st1 = (?st1, False, False)"
    by (rule parse_fields_unchanged)
  then show ?thesis
    using assms(1) by (subst parseConfig_Inr [where doc = doc]) simp_all
qed

text \<open>
  C2 fails on the code for the key \<^verbatim>\<open>powerMode\<close>: lines 149-161 set \<^verbatim>\<open>configChanged\<close>
  for every value in 0..2 without comparing it with the stored mode, as every other block
  does. With a BLE peer connected and the defaults in the store, the update
  \<^verbatim>\<open>{"powerMode": 1}\<close> changes nothing in the store, and applying it a second time
  re-applies the power-save policy, restarts the access point and pushes a status update
  again.
\<close>

theorem powerMode_reapplied:
  "store (parseConfig (\<lambda>j. Inr power_mode_update) [] with_peer) = store with_peer
   \<and> (\<exists>payload.
         side_effects (parseConfig (\<lambda>j. Inr power_mode_update) []
                         (parseConfig (\<lambda>j. Inr power_mode_update) [] with_peer)) =
         side_effects (parseConfig (\<lambda>j. Inr power_mode_update) [] with_peer)
           @ [esp_wifi_set_ps WIFI_PS_MIN_MODEM, esp_wifi_set_listen_interval 3,
              WiFi_softAPConfig apIP apIP apNetmask, WiFi_softAP ''Shivam5G_Repeater'' [] 7 0 8,
              BLE_setValue payload, BLE_notify])"
proof -
  let ?dj = "\<lambda>j::string. (Inr power_mode_update :: string + JsonDocument)"
  let ?s1 = "parseConfig ?dj [] with_peer"
  let ?s2 = "parseConfig ?dj [] ?s1"
  have d: "?dj [] = Inr power_mode_update" by simp
  have p: "store with_peer = (''Shivam5G'', [], ''Shivam5G_Repeater'', [], 7, 8, True, WIFI_PS_MIN_MODEM, 3)"
    by (simp add: with_peer_def initial_def store_def)
  have u: "spec_applyUpdate power_mode_update
      (''Shivam5G'', [], ''Shivam5G_Repeater'', [], 7, 8, True, WIFI_PS_MIN_MODEM, 3) =
      (''Shivam5G'', [], ''Shivam5G_Repeater'', [], 7, 8, True, WIFI_PS_MIN_MODEM, 3)"
    by (simp add: spec_applyUpdate_def power_mode_update_def no_keys_def WIFI_PS_MIN_MODEM_def)
  have s1: "store ?s1 = store with_peer"
    using parseConfig_store [of ?dj "[]" power_mode_update with_peer, OF d] by (simp add: p u)
  have s2: "store ?s2 = store with_peer"
    using parseConfig_store [of ?dj "[]" power_mode_update ?s1, OF d] by (simp add: s1 p u)
  have "store ?s2 = store ?s1"
    by (simp add: s1 s2)
  note g = store_fields(1,2) [OF this]
  from s2 have "store ?s2 = (''Shivam5G'', [], ''Shivam5G_Repeater'', [], 7, 8, True, WIFI_PS_MIN_MODEM, 3)"
    by (simp only: p)
  then have f: "apSSID ?s2 = ''Shivam5G_Repeater''" "apPassword ?s2 = []" "apChannel ?s2 = 7"
    "maxClients ?s2 = 8" "powerSavingEnabled ?s2" "powerSaveMode ?s2 = WIFI_PS_MIN_MODEM"
    "listenInterval ?s2 = 3"
    by (simp_all add: store_def)
  have c: "deviceConnected ?s1"
    using parseConfig_fields(2) [of ?dj "[]" power_mode_update with_peer, OF d]
    by (simp add: with_peer_def)
  have m: "fst (snd (parse_fields power_mode_update ?s1))"
    by (simp add: parse_fields_configChanged power_mode_update_def no_keys_def)
  from parseConfig_side_effects [of ?dj "[]" power_mode_update ?s1, OF d]
  have "\<exists>payload. side_effects ?s2 = side_effects ?s1
           @ [esp_wifi_set_ps WIFI_PS_MIN_MODEM, esp_wifi_set_listen_interval 3,
              WiFi_softAPConfig apIP apIP apNetmask, WiFi_softAP ''Shivam5G_Repeater'' [] 7 0 8,
              BLE_setValue payload, BLE_notify]"
    by (simp add: m c f g)
  with s1 show ?thesis
    by blast
qed

theorem powerMode_reapplied_witness:
  "side_effects (parseConfig (\<lambda>j. Inr power_mode_update) []
                   (parseConfig (\<lambda>j. Inr power_mode_update) [] with_peer)) \<noteq>
   side_effects (parseConfig (\<lambda>j. Inr power_mode_update) [] with_peer)"
  using powerMode_reapplied by auto

end
